theory Spec2Isabelle
  imports Main "HOL-Library.Sublist"
begin

section \<open>The configuration loader (package config)\<close>

text \<open>
  The package has one entry point, \<^verbatim>\<open>Load(dest interface{}, opts ...Option) error\<close>,
  which calls four libraries in a fixed order: godotenv (the \<^verbatim>\<open>.env\<close> file loader),
  env (the environment decoder), defaults (the default injector) and validator.
  The repository holds two versions of \<^verbatim>\<open>Load\<close>: \<^verbatim>\<open>config/config.go\<close>, which calls
  \<^verbatim>\<open>godotenv.Load()\<close> whenever \<^verbatim>\<open>skipEnv\<close> is false, and a second one that first checks
  \<^verbatim>\<open>os.Stat("./.env")\<close> and only logs at debug level when the file is missing.
  Both are embedded below. The four libraries are not part of the repository: \<^verbatim>\<open>Load\<close>
  takes them as a record of functions, and a concrete instance is modelled
  from the specification's interface descriptions further down.
\<close>

subsection \<open>Options\<close>

text \<open>\<^verbatim>\<open>type configOptions struct { prefix string; skipEnv bool; skipValid bool }\<close>\<close>

record configOptions =
  prefix :: string
  skipEnv :: bool
  skipValid :: bool

text \<open>
  \<^verbatim>\<open>type Option func(*configOptions)\<close>. The fields of \<^verbatim>\<open>configOptions\<close> are unexported,
  so the three constructors are the only closures of this type the package offers; the
  closure each one returns is recorded by its constructor and run by \<open>apply_Option\<close>.
\<close>

datatype Option = WithPrefix string | SkipEnvFile | SkipValidation

fun apply_Option :: "Option \<Rightarrow> configOptions \<Rightarrow> configOptions" where
  "apply_Option (WithPrefix p) o1 = o1\<lparr>prefix := p\<rparr>"
| "apply_Option SkipEnvFile o1 = o1\<lparr>skipEnv := True\<rparr>"
| "apply_Option SkipValidation o1 = o1\<lparr>skipValid := True\<rparr>"

text \<open>\<^verbatim>\<open>options := &configOptions{}\<close>: the zero value of every field.\<close>

definition zero_configOptions :: configOptions where
  "zero_configOptions = \<lparr>prefix = [], skipEnv = False, skipValid = False\<rparr>"

text \<open>\<^verbatim>\<open>for _, opt := range opts { opt(options) }\<close>\<close>

fun apply_opts :: "configOptions \<Rightarrow> Option list \<Rightarrow> configOptions" where
  "apply_opts o1 [] = o1"
| "apply_opts o1 (opt # opts) = apply_opts (apply_Option opt o1) opts"

subsection \<open>Values, structures and destinations\<close>

text \<open>
  Field values of the kinds the specification names (string, integer, boolean). A Go
  \<^verbatim>\<open>int\<close> is 64 bits wide; the parser below rejects literals outside that range, and
  no arithmetic is done on field values.
\<close>

datatype val = VString string | VInt int | VBool bool

fun zero_of :: "val \<Rightarrow> val" where
  "zero_of (VString _) = VString []"
| "zero_of (VInt _) = VInt 0"
| "zero_of (VBool _) = VBool False"

definition is_zero :: "val \<Rightarrow> bool" where
  "is_zero v = (v = zero_of v)"

text \<open>
  The struct tags of one field: \<^verbatim>\<open>env:"..."\<close>, \<^verbatim>\<open>default:"..."\<close> and
  \<^verbatim>\<open>validate:"required"\<close>.
\<close>

record field_decl =
  fd_name :: string
  fd_env :: string
  fd_default :: "string option"
  fd_required :: bool

type_synonym struct = "(field_decl \<times> val) list"

text \<open>
  What a caller can pass as \<^verbatim>\<open>dest interface{}\<close>: nil, a struct by value, a pointer to
  a struct, a pointer to something that is not a struct, or a plain value.
\<close>

datatype dest = Nil_dest | StructVal struct | PtrStruct struct | PtrVal val | PlainVal val

subsection \<open>Errors\<close>

text \<open>
  Go errors are values with a message; the constructor records the kind of the
  specification's taxonomy the error belongs to, \<open>Error\<close> is the method
  \<^verbatim>\<open>Error() string\<close>.
\<close>

datatype error =
    ShapeError string
  | FileLoadError string
  | DecodeError string
  | DefaultError string
  | ValidationError string

fun Error :: "error \<Rightarrow> string" where
  "Error (ShapeError m) = m"
| "Error (FileLoadError m) = m"
| "Error (DecodeError m) = m"
| "Error (DefaultError m) = m"
| "Error (ValidationError m) = m"

text \<open>\<^verbatim>\<open>strings.Contains(s, substr)\<close>, as the tests use it through \<^verbatim>\<open>assert.Contains\<close>.\<close>

definition strings_Contains :: "string \<Rightarrow> string \<Rightarrow> bool" where
  "strings_Contains s substr = sublist substr s"

subsection \<open>The world \<open>Load\<close> runs in\<close>

text \<open>\<^verbatim>\<open>slog.Level\<close> is an integer; the four named levels of \<^verbatim>\<open>log/slog\<close>.\<close>

definition LevelDebug :: int where "LevelDebug = - 4"

definition LevelInfo :: int where "LevelInfo = 0"

definition LevelWarn :: int where "LevelWarn = 4"

definition LevelError :: int where "LevelError = 8"

text \<open>
  The calls \<open>Load\<close> makes into the four libraries, in the order made; the decoder's
  call records the prefix it was given.
\<close>

datatype call =
    Call_godotenv_Load
  | Call_env_ParseWithOptions string
  | Call_defaults_SetDefaults
  | Call_validate_Struct

text \<open>
  The process environment, the files of the working directory (name to contents), the
  records sent to the default \<^verbatim>\<open>slog\<close> logger and the library calls made so far.
\<close>

record world =
  environ :: "string \<rightharpoonup> string"
  files :: "string \<rightharpoonup> string"
  slog_records :: "(int \<times> string) list"
  calls :: "call list"

text \<open>
  The four libraries, as \<open>Load\<close> uses them:
  \<^item> \<^verbatim>\<open>godotenv.Load() error\<close> reads the working directory and writes the environment;
  \<^item> \<^verbatim>\<open>env.ParseWithOptions(dest, env.Options{Prefix: p}) error\<close> reads the environment
    and writes through \<^verbatim>\<open>dest\<close>;
  \<^item> \<^verbatim>\<open>defaults.SetDefaults(dest)\<close> writes through \<^verbatim>\<open>dest\<close> and returns nothing;
  \<^item> \<^verbatim>\<open>validate.Struct(dest) error\<close> only reads \<^verbatim>\<open>dest\<close>.
\<close>

record collab =
  godotenv_Load :: "(string \<rightharpoonup> string) \<Rightarrow> (string \<rightharpoonup> string) \<Rightarrow> error + (string \<rightharpoonup> string)"
  env_ParseWithOptions :: "dest \<Rightarrow> string \<Rightarrow> (string \<rightharpoonup> string) \<Rightarrow> error option \<times> dest"
  defaults_SetDefaults :: "dest \<Rightarrow> dest"
  validate_Struct :: "dest \<Rightarrow> error option"

text \<open>What \<open>Load\<close> leaves behind: the returned error (\<open>None\<close> is nil), the destination and the world.\<close>

record outcome =
  ret :: "error option"
  final_dest :: dest
  final_world :: world

definition record_call :: "call \<Rightarrow> world \<Rightarrow> world" where
  "record_call c w = w\<lparr>calls := calls w @ [c]\<rparr>"

subsection \<open>\<open>Load\<close>\<close>

text \<open>
  Lines 49 to 66 of \<^verbatim>\<open>config/config.go\<close>, the same text in both versions: decode,
  inject defaults, validate unless skipped.
  \<^verbatim>\<open>
	err := env.ParseWithOptions(dest, env.Options{Prefix: options.prefix})
	if err != nil { return err }
	defaults.SetDefaults(dest)
	if !options.skipValid {
		validate := validator.New()
		err = validate.Struct(dest)
		if err != nil { return err }
	}
	return nil
  \<close>
\<close>

definition decode_default_validate :: "collab \<Rightarrow> configOptions \<Rightarrow> dest \<Rightarrow> world \<Rightarrow> outcome" where
  "decode_default_validate c options d w =
     (let w1 = record_call (Call_env_ParseWithOptions (prefix options)) w in
      case env_ParseWithOptions c d (prefix options) (environ w) of
        (Some e, d1) \<Rightarrow> \<lparr>ret = Some e, final_dest = d1, final_world = w1\<rparr>
      | (None, d1) \<Rightarrow>
          (let d2 = defaults_SetDefaults c d1;
               w2 = record_call Call_defaults_SetDefaults w1
           in if \<not> skipValid options
              then (let w3 = record_call Call_validate_Struct w2 in
                    case validate_Struct c d2 of
                      Some e \<Rightarrow> \<lparr>ret = Some e, final_dest = d2, final_world = w3\<rparr>
                    | None \<Rightarrow> \<lparr>ret = None, final_dest = d2, final_world = w3\<rparr>)
              else \<lparr>ret = None, final_dest = d2, final_world = w2\<rparr>))"

text \<open>
  \<^verbatim>\<open>Load\<close> of \<^verbatim>\<open>config/config.go\<close>:
  \<^verbatim>\<open>
	options := &configOptions{}
	for _, opt := range opts { opt(options) }
	if !options.skipEnv {
		err := godotenv.Load()
		if err != nil { return err }
	}
  \<close>
  followed by the three steps above.
\<close>

definition Load :: "collab \<Rightarrow> dest \<Rightarrow> Option list \<Rightarrow> world \<Rightarrow> outcome" where
  "Load c d opts w =
     (let options = apply_opts zero_configOptions opts in
      if \<not> skipEnv options
      then (let w1 = record_call Call_godotenv_Load w in
            case godotenv_Load c (files w) (environ w) of
              Inl e \<Rightarrow> \<lparr>ret = Some e, final_dest = d, final_world = w1\<rparr>
            | Inr env' \<Rightarrow> decode_default_validate c options d (w1\<lparr>environ := env'\<rparr>))
      else decode_default_validate c options d w)"

text \<open>
  The second version of \<^verbatim>\<open>Load\<close> (the one that imports \<^verbatim>\<open>log/slog\<close> and \<^verbatim>\<open>os\<close>):
  \<^verbatim>\<open>
	if !options.skipEnv {
		if _, err := os.Stat("./.env"); os.IsNotExist(err) {
			slog.Debug("env file does not exists")
		} else {
			err := godotenv.Load()
			if err != nil { return err }
		}
	}
  \<close>
\<close>

definition Load_stat :: "collab \<Rightarrow> dest \<Rightarrow> Option list \<Rightarrow> world \<Rightarrow> outcome" where
  "Load_stat c d opts w =
     (let options = apply_opts zero_configOptions opts in
      if \<not> skipEnv options
      then (if files w ''.env'' = None
            then decode_default_validate c options d
                   (w\<lparr>slog_records := slog_records w @ [(LevelDebug, ''env file does not exists'')]\<rparr>)
            else (let w1 = record_call Call_godotenv_Load w in
                  case godotenv_Load c (files w) (environ w) of
                    Inl e \<Rightarrow> \<lparr>ret = Some e, final_dest = d, final_world = w1\<rparr>
                  | Inr env' \<Rightarrow> decode_default_validate c options d (w1\<lparr>environ := env'\<rparr>)))
      else decode_default_validate c options d w)"

section \<open>The four libraries, from their interface descriptions\<close>

subsection \<open>Parsing literals\<close>

text \<open>
  Modelled from the spec: the conversion of a raw string to "a declared data type
  (string, integer, boolean at minimum)", which the decoder and the default injector
  both need and which the libraries delegate to \<^verbatim>\<open>strconv\<close>. An integer literal is an
  optional sign and at least one decimal digit, within 64 bits; a boolean literal is
  one of the spellings \<^verbatim>\<open>strconv.ParseBool\<close> accepts; every string is a string.
\<close>

definition digit_of :: "char \<Rightarrow> nat option" where
  "digit_of c =
     (if c = CHR ''0'' then Some 0 else if c = CHR ''1'' then Some 1
      else if c = CHR ''2'' then Some 2 else if c = CHR ''3'' then Some 3
      else if c = CHR ''4'' then Some 4 else if c = CHR ''5'' then Some 5
      else if c = CHR ''6'' then Some 6 else if c = CHR ''7'' then Some 7
      else if c = CHR ''8'' then Some 8 else if c = CHR ''9'' then Some 9
      else None)"

fun parse_digits :: "nat \<Rightarrow> string \<Rightarrow> nat option" where
  "parse_digits acc [] = Some acc"
| "parse_digits acc (c # cs) =
     (case digit_of c of None \<Rightarrow> None | Some d \<Rightarrow> parse_digits (10 * acc + d) cs)"

definition ParseInt :: "string \<Rightarrow> int option" where
  "ParseInt s =
     (let neg = (s \<noteq> [] \<and> hd s = CHR ''-'');
          ds = (if s \<noteq> [] \<and> (hd s = CHR ''-'' \<or> hd s = CHR ''+'') then tl s else s)
      in if ds = [] then None
         else (case parse_digits 0 ds of
                 None \<Rightarrow> None
               | Some n \<Rightarrow>
                   (let i = (if neg then - int n else int n)
                    in if - (2 ^ 63) \<le> i \<and> i < 2 ^ 63 then Some i else None)))"

definition ParseBool :: "string \<Rightarrow> bool option" where
  "ParseBool s =
     (if s \<in> set [''1'', ''t'', ''T'', ''TRUE'', ''true'', ''True''] then Some True
      else if s \<in> set [''0'', ''f'', ''F'', ''FALSE'', ''false'', ''False''] then Some False
      else None)"

text \<open>Parse a raw string at the type of the field's current value.\<close>

fun parse_as :: "val \<Rightarrow> string \<Rightarrow> val option" where
  "parse_as (VString _) raw = Some (VString raw)"
| "parse_as (VInt _) raw = map_option VInt (ParseInt raw)"
| "parse_as (VBool _) raw = map_option VBool (ParseBool raw)"

fun type_name :: "val \<Rightarrow> string" where
  "type_name (VString _) = ''string''"
| "type_name (VInt _) = ''int''"
| "type_name (VBool _) = ''bool''"

definition quoted :: "string \<Rightarrow> string" where
  "quoted s = [CHR 0x22] @ s @ [CHR 0x22]"

text \<open>\<^verbatim>\<open>strings.Join(elems, sep)\<close>\<close>

fun strings_Join :: "string list \<Rightarrow> string \<Rightarrow> string" where
  "strings_Join [] sep = []"
| "strings_Join [x] sep = x"
| "strings_Join (x # y # ys) sep = x @ sep @ strings_Join (y # ys) sep"

subsection \<open>The Variable Decoder\<close>

text \<open>
  Modelled from the spec: the Variable Decoder (\<^verbatim>\<open>env.ParseWithOptions\<close> of
  github.com/caarlos0/env, not in the repository). It "maps each structure field to an
  environment-variable name via a declared tag (optionally prefixed), and a declared
  data type" and "produces a typed error identifying the offending field name and raw
  string on parse failure"; the message is the one the repository's test expects
  (\<^verbatim>\<open>parse error on field "Port"\<close>). A field whose variable is unset is left as it is.
  The shape of the destination is checked here, with the two messages of the
  specification's contract of \<^verbatim>\<open>Load\<close>.
\<close>

definition parse_error_message :: "field_decl \<Rightarrow> val \<Rightarrow> string \<Rightarrow> string" where
  "parse_error_message f v raw =
     ''parse error on field '' @ quoted (fd_name f) @ '' of type '' @ quoted (type_name v)
       @ '': parsing '' @ quoted raw @ '': invalid syntax''"

definition decode_field ::
  "string \<Rightarrow> (string \<rightharpoonup> string) \<Rightarrow> field_decl \<times> val \<Rightarrow> string + field_decl \<times> val" where
  "decode_field p env fv =
     (case env (p @ fd_env (fst fv)) of
        None \<Rightarrow> Inr fv
      | Some raw \<Rightarrow>
          (case parse_as (snd fv) raw of
             Some v' \<Rightarrow> Inr (fst fv, v')
           | None \<Rightarrow> Inl (parse_error_message (fst fv) (snd fv) raw)))"

definition decoded_field ::
  "string \<Rightarrow> (string \<rightharpoonup> string) \<Rightarrow> field_decl \<times> val \<Rightarrow> field_decl \<times> val" where
  "decoded_field p env fv = (case decode_field p env fv of Inl _ \<Rightarrow> fv | Inr fv' \<Rightarrow> fv')"

definition decode_errors :: "string \<Rightarrow> (string \<rightharpoonup> string) \<Rightarrow> struct \<Rightarrow> string list" where
  "decode_errors p env s =
     concat (map (\<lambda>fv. case decode_field p env fv of Inl m \<Rightarrow> [m] | Inr _ \<Rightarrow> []) s)"

fun spec_env_ParseWithOptions ::
  "dest \<Rightarrow> string \<Rightarrow> (string \<rightharpoonup> string) \<Rightarrow> error option \<times> dest" where
  "spec_env_ParseWithOptions Nil_dest p env = (Some (ShapeError ''expected a pointer''), Nil_dest)"
| "spec_env_ParseWithOptions (PtrStruct s) p env =
     (let s' = map (decoded_field p env) s; errs = decode_errors p env s
      in (if errs = [] then None else Some (DecodeError (''env: '' @ strings_Join errs ''; '')),
          PtrStruct s'))"
| "spec_env_ParseWithOptions d p env = (Some (ShapeError ''expected a pointer to a struct''), d)"

subsection \<open>The Default Injector\<close>

text \<open>
  Modelled from the spec: the Default Injector (\<^verbatim>\<open>defaults.SetDefaults\<close> of
  github.com/mcuadros/go-defaults, not in the repository). It "consumes a declared
  default literal per field (tag-based); applies it only when the field currently holds
  its type's zero value". The function returns nothing, so a literal that does not
  parse at the field's type can only leave the field as it is.
\<close>

definition default_value :: "field_decl \<times> val \<Rightarrow> val option" where
  "default_value fv = (case fd_default (fst fv) of None \<Rightarrow> None | Some lit \<Rightarrow> parse_as (snd fv) lit)"

definition inject_field :: "field_decl \<times> val \<Rightarrow> field_decl \<times> val" where
  "inject_field fv =
     (if is_zero (snd fv)
      then (case default_value fv of None \<Rightarrow> fv | Some dv \<Rightarrow> (fst fv, dv))
      else fv)"

fun spec_defaults_SetDefaults :: "dest \<Rightarrow> dest" where
  "spec_defaults_SetDefaults (PtrStruct s) = PtrStruct (map inject_field s)"
| "spec_defaults_SetDefaults d = d"

subsection \<open>The Validator\<close>

text \<open>
  Modelled from the spec: the Validator (\<^verbatim>\<open>validator.New().Struct\<close> of
  github.com/go-playground/validator, not in the repository). It "consumes declared
  per-field constraints (tag-based, minimally "required"); returns an aggregate error
  whose rendered message contains the substring "validation" and names every failing
  field". A required field fails when it holds its type's zero value.
\<close>

definition violations :: "struct \<Rightarrow> (field_decl \<times> val) list" where
  "violations s = filter (\<lambda>fv. fd_required (fst fv) \<and> is_zero (snd fv)) s"

definition single_quoted :: "string \<Rightarrow> string" where
  "single_quoted s = [CHR 0x27] @ s @ [CHR 0x27]"

definition violation_message :: "field_decl \<times> val \<Rightarrow> string" where
  "violation_message fv =
     ''Key: '' @ single_quoted (fd_name (fst fv)) @ '' Error:Field validation for ''
       @ single_quoted (fd_name (fst fv)) @ '' failed on the '' @ single_quoted ''required''
       @ '' tag''"

definition validate_fields :: "struct \<Rightarrow> error option" where
  "validate_fields s =
     (if violations s = [] then None
      else Some (ValidationError (strings_Join (map violation_message (violations s)) [CHR 0x0A])))"

fun spec_validate_Struct :: "dest \<Rightarrow> error option" where
  "spec_validate_Struct (PtrStruct s) = validate_fields s"
| "spec_validate_Struct (StructVal s) = validate_fields s"
| "spec_validate_Struct d = Some (ValidationError ''validator: invalid value'')"

subsection \<open>The External File Loader\<close>

text \<open>
  Modelled from the spec: the External File Loader (\<^verbatim>\<open>godotenv.Load\<close> of
  github.com/DarthSim/godotenv, not in the repository). It "reads a file named
  \<^verbatim>\<open>.env\<close> from the current working directory, format: one \<^verbatim>\<open>KEY=VALUE\<close> pair per
  line", and "appends entries" to the process environment: a variable that is already
  set keeps its value. A missing file is an error "whose message references the file
  name", as the repository's test \<^verbatim>\<open>missing env file\<close> expects; a line without
  \<^verbatim>\<open>=\<close> is malformed.
\<close>

fun strings_Split :: "string \<Rightarrow> char \<Rightarrow> string list" where
  "strings_Split [] sep = [] # []"
| "strings_Split (c # cs) sep =
     (if c = sep then [] # strings_Split cs sep
      else (case strings_Split cs sep of
              [] \<Rightarrow> [c] # []
            | l # ls \<Rightarrow> (c # l) # ls))"

definition parse_line :: "string \<Rightarrow> (string \<times> string) option" where
  "parse_line l =
     (if CHR ''='' \<in> set l
      then Some (takeWhile (\<lambda>c. c \<noteq> CHR ''='') l, tl (dropWhile (\<lambda>c. c \<noteq> CHR ''='') l))
      else None)"

fun parse_lines :: "string list \<Rightarrow> (string \<times> string) list option" where
  "parse_lines [] = Some []"
| "parse_lines (l # ls) =
     (if l = [] then parse_lines ls
      else (case parse_line l of
              None \<Rightarrow> None
            | Some kv \<Rightarrow> map_option ((#) kv) (parse_lines ls)))"

fun setenv_if_unset :: "(string \<rightharpoonup> string) \<Rightarrow> (string \<times> string) list \<Rightarrow> (string \<rightharpoonup> string)" where
  "setenv_if_unset env [] = env"
| "setenv_if_unset env ((k, v) # kvs) =
     setenv_if_unset (if env k = None then env(k \<mapsto> v) else env) kvs"

definition spec_godotenv_Load ::
  "(string \<rightharpoonup> string) \<Rightarrow> (string \<rightharpoonup> string) \<Rightarrow> error + (string \<rightharpoonup> string)" where
  "spec_godotenv_Load fs env =
     (case fs ''.env'' of
        None \<Rightarrow> Inl (FileLoadError ''open .env: no such file or directory'')
      | Some content \<Rightarrow>
          (case parse_lines (strings_Split content (CHR 0x0A)) of
             None \<Rightarrow> Inl (FileLoadError ''.env: malformed line'')
           | Some kvs \<Rightarrow> Inr (setenv_if_unset env kvs)))"

definition libraries :: collab where
  "libraries =
     \<lparr>godotenv_Load = spec_godotenv_Load,
      env_ParseWithOptions = spec_env_ParseWithOptions,
      defaults_SetDefaults = spec_defaults_SetDefaults,
      validate_Struct = spec_validate_Struct\<rparr>"

subsection \<open>The structure of the repository's tests\<close>

text \<open>
  \<^verbatim>\<open>
  type TestConfig struct {
  	Host     string `env:"HOST" validate:"required"`
  	Port     int    `env:"PORT" default:"8080"`
  	Debug    bool   `env:"DEBUG" default:"false"`
  	Optional string `env:"OPTIONAL"`
  }
  \<close>
  \<open>TestConfig_zero\<close> is \<^verbatim>\<open>TestConfig{}\<close>.
\<close>

definition TestConfig_zero :: struct where
  "TestConfig_zero =
     [(\<lparr>fd_name = ''Host'', fd_env = ''HOST'', fd_default = None, fd_required = True\<rparr>, VString []),
      (\<lparr>fd_name = ''Port'', fd_env = ''PORT'', fd_default = Some ''8080'', fd_required = False\<rparr>, VInt 0),
      (\<lparr>fd_name = ''Debug'', fd_env = ''DEBUG'', fd_default = Some ''false'', fd_required = False\<rparr>, VBool False),
      (\<lparr>fd_name = ''Optional'', fd_env = ''OPTIONAL'', fd_default = None, fd_required = False\<rparr>, VString [])]"

text \<open>The value of the field called \<open>n\<close>, if there is one.\<close>

definition field_value :: "struct \<Rightarrow> string \<Rightarrow> val option" where
  "field_value s n = map_option snd (find (\<lambda>fv. fd_name (fst fv) = n) s)"

fun struct_of :: "dest \<Rightarrow> struct" where
  "struct_of (PtrStruct s) = s"
| "struct_of (StructVal s) = s"
| "struct_of d = []"

text \<open>A world with no \<^verbatim>\<open>.env\<close> file, an empty environment, nothing logged, nothing called.\<close>

definition empty_world :: world where
  "empty_world = \<lparr>environ = Map.empty, files = Map.empty, slog_records = [], calls = []\<rparr>"

text \<open>The library calls an invocation added to the ones already recorded in \<open>w\<close>.\<close>

definition calls_made :: "world \<Rightarrow> outcome \<Rightarrow> call list" where
  "calls_made w out = drop (length (calls w)) (calls (final_world out))"

section \<open>The pretty log handler (package logging)\<close>

text \<open>
  What \<^verbatim>\<open>a.Value.Any()\<close> can hold, as far as \<^verbatim>\<open>Handle\<close> tells values apart: a value
  implementing \<^verbatim>\<open>error\<close> (with the message its \<^verbatim>\<open>Error()\<close> returns), a string, and
  values of other types (integers, booleans, and anything else, named by a number).
\<close>

datatype any_value =
    AnyError string
  | AnyString string
  | AnyInt int
  | AnyBool bool
  | AnyOther nat

text \<open>\<^verbatim>\<open>slog.Attr\<close>: the key and the value.\<close>

type_synonym attr = "string \<times> any_value"

record slog_Record =
  rec_Time :: nat
  rec_Message :: string
  rec_Level :: int
  rec_PC :: nat
  rec_attrs :: "attr list"

datatype colour = Magenta | Blue | Yellow | Red | Cyan | Green | White

text \<open>A string in pieces, each with the colour \<^verbatim>\<open>github.com/fatih/color\<close> gave it, if any.\<close>

type_synonym cstring = "(colour option \<times> string) list"

text \<open>
  The functions of the standard library \<^verbatim>\<open>Handle\<close> calls: \<^verbatim>\<open>Level.String\<close>,
  \<^verbatim>\<open>fmt.Sprint\<close>, \<^verbatim>\<open>json.MarshalIndent(fields, "", "  ")\<close> (\<open>Inl\<close> is its error),
  \<^verbatim>\<open>Time.Format("[15:04:05.000]")\<close>, and the file and line that
  \<^verbatim>\<open>runtime.CallersFrames\<close> finds for a program counter.
\<close>

record stdlib =
  Level_String :: "int \<Rightarrow> string"
  fmt_Sprint :: "any_value \<Rightarrow> string"
  json_MarshalIndent :: "(string \<rightharpoonup> any_value) \<Rightarrow> string + string"
  Time_Format :: "nat \<Rightarrow> string"
  frame_File :: "nat \<Rightarrow> string"
  frame_Line :: "nat \<Rightarrow> string"

text \<open>
  The body of the closure given to \<^verbatim>\<open>r.Attrs\<close> (\<^verbatim>\<open>logging/logger.go\<close>, lines 40 to 56):
  \<^verbatim>\<open>
	if a.Key == "error" {
		switch v := a.Value.Any().(type) {
		case error:  fields[a.Key] = v.Error()
		case string: fields[a.Key] = v
		default:     fields[a.Key] = fmt.Sprint(v)
		}
		return true
	}
	fields[a.Key] = a.Value.Any()
	return true
  \<close>
\<close>

definition store_attr :: "stdlib \<Rightarrow> (string \<rightharpoonup> any_value) \<Rightarrow> attr \<Rightarrow> (string \<rightharpoonup> any_value)" where
  "store_attr lib flds a =
     (if fst a = ''error''
      then (case snd a of
              AnyError m \<Rightarrow> flds(fst a \<mapsto> AnyString m)
            | AnyString v \<Rightarrow> flds(fst a \<mapsto> AnyString v)
            | v \<Rightarrow> flds(fst a \<mapsto> AnyString (fmt_Sprint lib v)))
      else flds(fst a \<mapsto> snd a))"

text \<open>\<^verbatim>\<open>fields := make(map[string]interface{}, r.NumAttrs()); r.Attrs(...)\<close>\<close>

definition Handle_fields :: "stdlib \<Rightarrow> slog_Record \<Rightarrow> (string \<rightharpoonup> any_value)" where
  "Handle_fields lib r = foldl (store_attr lib) Map.empty (rec_attrs r)"

text \<open>
  \<^verbatim>\<open>func (h *PrettyHandler) Handle(ctx context.Context, r slog.Record) error\<close>. The
  third argument is what \<^verbatim>\<open>h.l\<close> has printed so far, one entry for each \<^verbatim>\<open>Println\<close>
  with its five operands; the result is the returned error (\<open>None\<close> is nil) and the
  output afterwards.
\<close>

definition Handle ::
  "stdlib \<Rightarrow> slog_Record \<Rightarrow> cstring list list \<Rightarrow> string option \<times> cstring list list" where
  "Handle lib r printed =
     (let level0 = Level_String lib (rec_Level r) @ '':'';
          level = (if rec_Level r = LevelDebug then [(Some Magenta, level0)]
                   else if rec_Level r = LevelInfo then [(Some Blue, level0)]
                   else if rec_Level r = LevelWarn then [(Some Yellow, level0)]
                   else if rec_Level r = LevelError then [(Some Red, level0)]
                   else [(None, level0)]);
          flds = Handle_fields lib r
      in case json_MarshalIndent lib flds of
           Inl err \<Rightarrow> (Some err, printed)
         | Inr b \<Rightarrow>
             (let timeStr = [(None, Time_Format lib (rec_Time r))];
                  msg = [(Some Cyan, rec_Message r)];
                  fileStr = (if rec_PC r \<noteq> 0
                             then [(Some Green, frame_File lib (rec_PC r)), (None, '':''),
                                   (Some Green, frame_Line lib (rec_PC r))]
                             else [])
              in (None, printed @ [timeStr # level # msg # fileStr # [(Some White, b)] # []])))"

section \<open>Facts about the options and the order of the steps\<close>

lemma apply_opts_append: "apply_opts o1 (xs @ ys) = apply_opts (apply_opts o1 xs) ys"
  by (induction xs arbitrary: o1) simp_all

lemma skipEnv_apply_opts: "skipEnv (apply_opts o1 opts) = (skipEnv o1 \<or> SkipEnvFile \<in> set opts)"
proof (induction opts arbitrary: o1)
  case Nil
  show ?case by simp
next
  case (Cons opt opts)
  show ?case by (cases opt) (auto simp: Cons.IH)
qed

lemma skipValid_apply_opts:
  "skipValid (apply_opts o1 opts) = (skipValid o1 \<or> SkipValidation \<in> set opts)"
proof (induction opts arbitrary: o1)
  case Nil
  show ?case by simp
next
  case (Cons opt opts)
  show ?case by (cases opt) (auto simp: Cons.IH)
qed

lemma prefix_apply_opts_none:
  "\<forall>r. WithPrefix r \<notin> set opts \<Longrightarrow> prefix (apply_opts o1 opts) = prefix o1"
proof (induction opts arbitrary: o1)
  case Nil
  show ?case by simp
next
  case (Cons opt opts)
  then show ?case by (cases opt) auto
qed

lemma prefix_apply_opts_last:
  "\<forall>r. WithPrefix r \<notin> set ys \<Longrightarrow> prefix (apply_opts o1 (xs @ WithPrefix q # ys)) = q"
  by (simp add: apply_opts_append prefix_apply_opts_none)

lemma apply_opts_twice_prefix:
  "apply_opts o1 (xs @ WithPrefix p # WithPrefix q # ys) = apply_opts o1 (xs @ WithPrefix q # ys)"
  by (simp add: apply_opts_append)

lemma skipEnv_zero [simp]: "skipEnv (apply_opts zero_configOptions opts) = (SkipEnvFile \<in> set opts)"
  by (simp add: skipEnv_apply_opts zero_configOptions_def)

lemma skipValid_zero [simp]:
  "skipValid (apply_opts zero_configOptions opts) = (SkipValidation \<in> set opts)"
  by (simp add: skipValid_apply_opts zero_configOptions_def)

text \<open>The three steps after the file step.\<close>

lemma ddv_ret:
  "ret (decode_default_validate c options d w) =
     (case env_ParseWithOptions c d (prefix options) (environ w) of
        (Some e, d1) \<Rightarrow> Some e
      | (None, d1) \<Rightarrow>
          if skipValid options then None else validate_Struct c (defaults_SetDefaults c d1))"
  by (simp add: decode_default_validate_def Let_def split: prod.splits option.splits)

lemma ddv_final_dest:
  "final_dest (decode_default_validate c options d w) =
     (case env_ParseWithOptions c d (prefix options) (environ w) of
        (Some e, d1) \<Rightarrow> d1
      | (None, d1) \<Rightarrow> defaults_SetDefaults c d1)"
  by (simp add: decode_default_validate_def Let_def split: prod.splits option.splits)

lemma ddv_calls:
  "calls (final_world (decode_default_validate c options d w)) =
     calls w @ Call_env_ParseWithOptions (prefix options) #
       (case fst (env_ParseWithOptions c d (prefix options) (environ w)) of
          Some e \<Rightarrow> []
        | None \<Rightarrow>
            Call_defaults_SetDefaults # (if skipValid options then [] else [Call_validate_Struct]))"
  by (simp add: decode_default_validate_def Let_def record_call_def
           split: prod.splits option.splits)

lemma ddv_environ:
  "environ (final_world (decode_default_validate c options d w)) = environ w"
  by (simp add: decode_default_validate_def Let_def record_call_def
           split: prod.splits option.splits)

lemma ddv_files:
  "files (final_world (decode_default_validate c options d w)) = files w"
  by (simp add: decode_default_validate_def Let_def record_call_def
           split: prod.splits option.splits)

lemma ddv_slog:
  "slog_records (final_world (decode_default_validate c options d w)) = slog_records w"
  by (simp add: decode_default_validate_def Let_def record_call_def
           split: prod.splits option.splits)

text \<open>The cases of the file step, for both versions of \<open>Load\<close>.\<close>

lemma Load_skip:
  "SkipEnvFile \<in> set opts \<Longrightarrow>
   Load c d opts w = decode_default_validate c (apply_opts zero_configOptions opts) d w"
  by (simp add: Load_def Let_def)

lemma Load_file_error:
  "SkipEnvFile \<notin> set opts \<Longrightarrow> godotenv_Load c (files w) (environ w) = Inl e \<Longrightarrow>
   Load c d opts w =
     \<lparr>ret = Some e, final_dest = d, final_world = record_call Call_godotenv_Load w\<rparr>"
  by (simp add: Load_def Let_def)

lemma Load_file_ok:
  "SkipEnvFile \<notin> set opts \<Longrightarrow> godotenv_Load c (files w) (environ w) = Inr env1 \<Longrightarrow>
   Load c d opts w =
     decode_default_validate c (apply_opts zero_configOptions opts) d
       ((record_call Call_godotenv_Load w)\<lparr>environ := env1\<rparr>)"
  by (simp add: Load_def Let_def)

lemma Load_stat_skip:
  "SkipEnvFile \<in> set opts \<Longrightarrow>
   Load_stat c d opts w = decode_default_validate c (apply_opts zero_configOptions opts) d w"
  by (simp add: Load_stat_def Let_def)

lemma Load_stat_absent:
  "SkipEnvFile \<notin> set opts \<Longrightarrow> files w ''.env'' = None \<Longrightarrow>
   Load_stat c d opts w =
     decode_default_validate c (apply_opts zero_configOptions opts) d
       (w\<lparr>slog_records := slog_records w @ [(LevelDebug, ''env file does not exists'')]\<rparr>)"
  by (simp add: Load_stat_def Let_def)

lemma Load_stat_file_error:
  "SkipEnvFile \<notin> set opts \<Longrightarrow> files w ''.env'' = Some content \<Longrightarrow>
   godotenv_Load c (files w) (environ w) = Inl e \<Longrightarrow>
   Load_stat c d opts w =
     \<lparr>ret = Some e, final_dest = d, final_world = record_call Call_godotenv_Load w\<rparr>"
  by (simp add: Load_stat_def Let_def)

lemma Load_stat_file_ok:
  "SkipEnvFile \<notin> set opts \<Longrightarrow> files w ''.env'' = Some content \<Longrightarrow>
   godotenv_Load c (files w) (environ w) = Inr env1 \<Longrightarrow>
   Load_stat c d opts w =
     decode_default_validate c (apply_opts zero_configOptions opts) d
       ((record_call Call_godotenv_Load w)\<lparr>environ := env1\<rparr>)"
  by (simp add: Load_stat_def Let_def)

text \<open>What \<open>Load\<close> does once the file step is skipped or has succeeded with environment \<open>env1\<close>.\<close>

lemma Load_ret_after_file_step:
  assumes "(SkipEnvFile \<in> set opts \<and> env1 = environ w) \<or>
           (SkipEnvFile \<notin> set opts \<and> godotenv_Load c (files w) (environ w) = Inr env1)"
  shows "ret (Load c d opts w) =
     (case env_ParseWithOptions c d (prefix (apply_opts zero_configOptions opts)) env1 of
        (Some e, d1) \<Rightarrow> Some e
      | (None, d1) \<Rightarrow>
          if SkipValidation \<in> set opts then None
          else validate_Struct c (defaults_SetDefaults c d1))"
  using assms by (auto simp: Load_skip Load_file_ok ddv_ret split: prod.splits option.splits)

lemma Load_dest_after_file_step:
  assumes "(SkipEnvFile \<in> set opts \<and> env1 = environ w) \<or>
           (SkipEnvFile \<notin> set opts \<and> godotenv_Load c (files w) (environ w) = Inr env1)"
  shows "final_dest (Load c d opts w) =
     (case env_ParseWithOptions c d (prefix (apply_opts zero_configOptions opts)) env1 of
        (Some e, d1) \<Rightarrow> d1
      | (None, d1) \<Rightarrow> defaults_SetDefaults c d1)"
  using assms by (auto simp: Load_skip Load_file_ok ddv_final_dest split: prod.splits option.splits)

lemma Load_calls_after_file_step:
  assumes "(SkipEnvFile \<in> set opts \<and> env1 = environ w) \<or>
           (SkipEnvFile \<notin> set opts \<and> godotenv_Load c (files w) (environ w) = Inr env1)"
  shows "calls_made w (Load c d opts w) =
     (if SkipEnvFile \<in> set opts then [] else [Call_godotenv_Load]) @
     Call_env_ParseWithOptions (prefix (apply_opts zero_configOptions opts)) #
       (case fst (env_ParseWithOptions c d (prefix (apply_opts zero_configOptions opts)) env1) of
          Some e \<Rightarrow> []
        | None \<Rightarrow>
            Call_defaults_SetDefaults #
              (if SkipValidation \<in> set opts then [] else [Call_validate_Struct]))"
  using assms by (auto simp: calls_made_def Load_skip Load_file_ok ddv_calls record_call_def split: prod.splits option.splits)

lemma Load_environ_after_file_step:
  assumes "(SkipEnvFile \<in> set opts \<and> env1 = environ w) \<or>
           (SkipEnvFile \<notin> set opts \<and> godotenv_Load c (files w) (environ w) = Inr env1)"
  shows "environ (final_world (Load c d opts w)) = env1"
  using assms by (auto simp: Load_skip Load_file_ok ddv_environ)

lemma Load_stat_ret_after_file_step:
  assumes "((SkipEnvFile \<in> set opts \<or> files w ''.env'' = None) \<and> env1 = environ w) \<or>
           (SkipEnvFile \<notin> set opts \<and> files w ''.env'' \<noteq> None \<and>
            godotenv_Load c (files w) (environ w) = Inr env1)"
  shows "ret (Load_stat c d opts w) =
     (case env_ParseWithOptions c d (prefix (apply_opts zero_configOptions opts)) env1 of
        (Some e, d1) \<Rightarrow> Some e
      | (None, d1) \<Rightarrow>
          if SkipValidation \<in> set opts then None
          else validate_Struct c (defaults_SetDefaults c d1))"
proof (cases "SkipEnvFile \<in> set opts")
  case True
  with assms show ?thesis by (simp add: Load_stat_skip ddv_ret split: prod.splits option.splits)
next
  case False
  show ?thesis
  proof (cases "files w ''.env''")
    case None
    with False assms show ?thesis by (simp add: Load_stat_absent ddv_ret split: prod.splits option.splits)
  next
    case (Some content)
    with False assms show ?thesis by (simp add: Load_stat_file_ok ddv_ret split: prod.splits option.splits)
  qed
qed

lemma Load_stat_dest_after_file_step:
  assumes "((SkipEnvFile \<in> set opts \<or> files w ''.env'' = None) \<and> env1 = environ w) \<or>
           (SkipEnvFile \<notin> set opts \<and> files w ''.env'' \<noteq> None \<and>
            godotenv_Load c (files w) (environ w) = Inr env1)"
  shows "final_dest (Load_stat c d opts w) =
     (case env_ParseWithOptions c d (prefix (apply_opts zero_configOptions opts)) env1 of
        (Some e, d1) \<Rightarrow> d1
      | (None, d1) \<Rightarrow> defaults_SetDefaults c d1)"
proof (cases "SkipEnvFile \<in> set opts")
  case True
  with assms show ?thesis by (simp add: Load_stat_skip ddv_final_dest split: prod.splits option.splits)
next
  case False
  show ?thesis
  proof (cases "files w ''.env''")
    case None
    with False assms show ?thesis by (simp add: Load_stat_absent ddv_final_dest split: prod.splits option.splits)
  next
    case (Some content)
    with False assms show ?thesis by (simp add: Load_stat_file_ok ddv_final_dest split: prod.splits option.splits)
  qed
qed

lemma Load_stat_calls_after_file_step:
  assumes "((SkipEnvFile \<in> set opts \<or> files w ''.env'' = None) \<and> env1 = environ w) \<or>
           (SkipEnvFile \<notin> set opts \<and> files w ''.env'' \<noteq> None \<and>
            godotenv_Load c (files w) (environ w) = Inr env1)"
  shows "calls_made w (Load_stat c d opts w) =
     (if SkipEnvFile \<in> set opts \<or> files w ''.env'' = None then [] else [Call_godotenv_Load]) @
     Call_env_ParseWithOptions (prefix (apply_opts zero_configOptions opts)) #
       (case fst (env_ParseWithOptions c d (prefix (apply_opts zero_configOptions opts)) env1) of
          Some e \<Rightarrow> []
        | None \<Rightarrow>
            Call_defaults_SetDefaults #
              (if SkipValidation \<in> set opts then [] else [Call_validate_Struct]))"
proof (cases "SkipEnvFile \<in> set opts")
  case True
  with assms show ?thesis by (simp add: calls_made_def Load_stat_skip ddv_calls split: prod.splits option.splits)
next
  case False
  show ?thesis
  proof (cases "files w ''.env''")
    case None
    with False assms show ?thesis by (simp add: calls_made_def Load_stat_absent ddv_calls split: prod.splits option.splits)
  next
    case (Some content)
    with False assms show ?thesis
      by (simp add: calls_made_def Load_stat_file_ok ddv_calls record_call_def split: prod.splits option.splits)
  qed
qed

lemma Load_calls_file_error:
  "SkipEnvFile \<notin> set opts \<Longrightarrow> godotenv_Load c (files w) (environ w) = Inl e \<Longrightarrow>
   calls_made w (Load c d opts w) = [Call_godotenv_Load]"
  by (simp add: Load_file_error calls_made_def record_call_def)

lemma Load_stat_calls_file_error:
  "SkipEnvFile \<notin> set opts \<Longrightarrow> files w ''.env'' = Some content \<Longrightarrow>
   godotenv_Load c (files w) (environ w) = Inl e \<Longrightarrow>
   calls_made w (Load_stat c d opts w) = [Call_godotenv_Load]"
  by (simp add: Load_stat_file_error calls_made_def record_call_def)

lemma Load_decoder_prefix:
  assumes "Call_env_ParseWithOptions r \<in> set (calls_made w (Load c d opts w))"
  shows "r = prefix (apply_opts zero_configOptions opts)"
proof (cases "SkipEnvFile \<in> set opts")
  case True
  then have "(SkipEnvFile \<in> set opts \<and> environ w = environ w) \<or>
      (SkipEnvFile \<notin> set opts \<and> godotenv_Load c (files w) (environ w) = Inr (environ w))"
    by simp
  from Load_calls_after_file_step[OF this] assms show ?thesis
    by (auto split: option.splits if_splits)
next
  case False
  show ?thesis
  proof (cases "godotenv_Load c (files w) (environ w)")
    case (Inl e)
    with False assms show ?thesis by (simp add: Load_calls_file_error)
  next
    case (Inr env1)
    with False have "(SkipEnvFile \<in> set opts \<and> env1 = environ w) \<or>
      (SkipEnvFile \<notin> set opts \<and> godotenv_Load c (files w) (environ w) = Inr env1)"
      by simp
    from Load_calls_after_file_step[OF this] assms show ?thesis
      by (auto split: option.splits if_splits)
  qed
qed

lemma Load_stat_decoder_prefix:
  assumes "Call_env_ParseWithOptions r \<in> set (calls_made w (Load_stat c d opts w))"
  shows "r = prefix (apply_opts zero_configOptions opts)"
proof (cases "SkipEnvFile \<in> set opts \<or> files w ''.env'' = None")
  case True
  then have "((SkipEnvFile \<in> set opts \<or> files w ''.env'' = None) \<and> environ w = environ w) \<or>
      (SkipEnvFile \<notin> set opts \<and> files w ''.env'' \<noteq> None \<and>
       godotenv_Load c (files w) (environ w) = Inr (environ w))"
    by simp
  from Load_stat_calls_after_file_step[OF this] assms show ?thesis
    by (auto split: option.splits if_splits)
next
  case False
  then obtain content where content: "files w ''.env'' = Some content" and ns: "SkipEnvFile \<notin> set opts"
    by auto
  show ?thesis
  proof (cases "godotenv_Load c (files w) (environ w)")
    case (Inl e)
    with ns content assms show ?thesis by (simp add: Load_stat_calls_file_error)
  next
    case (Inr env1)
    with ns content have "((SkipEnvFile \<in> set opts \<or> files w ''.env'' = None) \<and> env1 = environ w) \<or>
      (SkipEnvFile \<notin> set opts \<and> files w ''.env'' \<noteq> None \<and>
       godotenv_Load c (files w) (environ w) = Inr env1)"
      by simp
    from Load_stat_calls_after_file_step[OF this] assms show ?thesis
      by (auto split: option.splits if_splits)
  qed
qed

lemma Load_twice_prefix:
  "Load c d (xs @ WithPrefix p # WithPrefix q # ys) w = Load c d (xs @ WithPrefix q # ys) w"
  by (simp add: Load_def apply_opts_twice_prefix del: skipEnv_zero skipValid_zero)

lemma Load_stat_twice_prefix:
  "Load_stat c d (xs @ WithPrefix p # WithPrefix q # ys) w = Load_stat c d (xs @ WithPrefix q # ys) w"
  by (simp add: Load_stat_def apply_opts_twice_prefix del: skipEnv_zero skipValid_zero)

section \<open>Skipping validation\<close>

lemmas run_defs =
  Load_def Load_stat_def decode_default_validate_def record_call_def calls_made_def Let_def
  libraries_def empty_world_def TestConfig_zero_def zero_configOptions_def
  decoded_field_def decode_field_def decode_errors_def parse_error_message_def quoted_def
  inject_field_def default_value_def is_zero_def
  validate_fields_def violations_def violation_message_def single_quoted_def
  spec_godotenv_Load_def parse_line_def
  ParseInt_def ParseBool_def digit_of_def field_value_def

lemma Load_validator_called:
  assumes "Call_validate_Struct \<in> set (calls_made w (Load c d opts w))"
  shows "SkipValidation \<notin> set opts"
proof (cases "SkipEnvFile \<in> set opts")
  case True
  then have "(SkipEnvFile \<in> set opts \<and> environ w = environ w) \<or>
      (SkipEnvFile \<notin> set opts \<and> godotenv_Load c (files w) (environ w) = Inr (environ w))"
    by simp
  from Load_calls_after_file_step[OF this] assms show ?thesis
    by (auto split: option.splits if_splits)
next
  case False
  show ?thesis
  proof (cases "godotenv_Load c (files w) (environ w)")
    case (Inl e)
    with False assms show ?thesis by (simp add: Load_calls_file_error)
  next
    case (Inr env1)
    with False have "(SkipEnvFile \<in> set opts \<and> env1 = environ w) \<or>
      (SkipEnvFile \<notin> set opts \<and> godotenv_Load c (files w) (environ w) = Inr env1)"
      by simp
    from Load_calls_after_file_step[OF this] assms show ?thesis
      by (auto split: option.splits if_splits)
  qed
qed

lemma Load_stat_validator_called:
  assumes "Call_validate_Struct \<in> set (calls_made w (Load_stat c d opts w))"
  shows "SkipValidation \<notin> set opts"
proof (cases "SkipEnvFile \<in> set opts \<or> files w ''.env'' = None")
  case True
  then have "((SkipEnvFile \<in> set opts \<or> files w ''.env'' = None) \<and> environ w = environ w) \<or>
      (SkipEnvFile \<notin> set opts \<and> files w ''.env'' \<noteq> None \<and>
       godotenv_Load c (files w) (environ w) = Inr (environ w))"
    by simp
  from Load_stat_calls_after_file_step[OF this] assms show ?thesis
    by (auto split: option.splits if_splits)
next
  case False
  then obtain content where content: "files w ''.env'' = Some content" and ns: "SkipEnvFile \<notin> set opts"
    by auto
  show ?thesis
  proof (cases "godotenv_Load c (files w) (environ w)")
    case (Inl e)
    with ns content assms show ?thesis by (simp add: Load_stat_calls_file_error)
  next
    case (Inr env1)
    with ns content have "((SkipEnvFile \<in> set opts \<or> files w ''.env'' = None) \<and> env1 = environ w) \<or>
      (SkipEnvFile \<notin> set opts \<and> files w ''.env'' \<noteq> None \<and>
       godotenv_Load c (files w) (environ w) = Inr env1)"
      by simp
    from Load_stat_calls_after_file_step[OF this] assms show ?thesis
      by (auto split: option.splits if_splits)
  qed
qed

text \<open>
  C6. When \<open>SkipValidation\<close> was applied, neither version of \<open>Load\<close> calls the
  validator, and once the file step is skipped or has succeeded (leaving the
  environment \<open>denv\<close>) and the decoder has returned no error, \<open>Load\<close> returns nil,
  whatever the validator would say about the destination.
\<close>

theorem skip_validation_returns_nil:
  assumes "SkipValidation \<in> set opts"
  shows "Call_validate_Struct \<notin> set (calls_made w (Load c d opts w))
     \<and> Call_validate_Struct \<notin> set (calls_made w (Load_stat c d opts w))
     \<and> (((SkipEnvFile \<in> set opts \<and> denv = environ w) \<or>
          (SkipEnvFile \<notin> set opts \<and> godotenv_Load c (files w) (environ w) = Inr denv))
         \<and> fst (env_ParseWithOptions c d (prefix (apply_opts zero_configOptions opts)) denv) = None
         \<longrightarrow> ret (Load c d opts w) = None)
     \<and> ((((SkipEnvFile \<in> set opts \<or> files w ''.env'' = None) \<and> denv = environ w) \<or>
          (SkipEnvFile \<notin> set opts \<and> files w ''.env'' \<noteq> None \<and>
           godotenv_Load c (files w) (environ w) = Inr denv))
         \<and> fst (env_ParseWithOptions c d (prefix (apply_opts zero_configOptions opts)) denv) = None
         \<longrightarrow> ret (Load_stat c d opts w) = None)"
proof (intro conjI impI)
  show "Call_validate_Struct \<notin> set (calls_made w (Load c d opts w))"
    using assms Load_validator_called by blast
  show "Call_validate_Struct \<notin> set (calls_made w (Load_stat c d opts w))"
    using assms Load_stat_validator_called by blast
next
  assume h: "((SkipEnvFile \<in> set opts \<and> denv = environ w) \<or>
          (SkipEnvFile \<notin> set opts \<and> godotenv_Load c (files w) (environ w) = Inr denv))
         \<and> fst (env_ParseWithOptions c d (prefix (apply_opts zero_configOptions opts)) denv) = None"
  then have "ret (Load c d opts w) =
     (case env_ParseWithOptions c d (prefix (apply_opts zero_configOptions opts)) denv of
        (Some e, d1) \<Rightarrow> Some e
      | (None, d1) \<Rightarrow>
          if SkipValidation \<in> set opts then None
          else validate_Struct c (defaults_SetDefaults c d1))"
    by (intro Load_ret_after_file_step) simp
  with h assms show "ret (Load c d opts w) = None"
    by (simp split: prod.splits option.splits)
next
  assume h: "(((SkipEnvFile \<in> set opts \<or> files w ''.env'' = None) \<and> denv = environ w) \<or>
          (SkipEnvFile \<notin> set opts \<and> files w ''.env'' \<noteq> None \<and>
           godotenv_Load c (files w) (environ w) = Inr denv))
         \<and> fst (env_ParseWithOptions c d (prefix (apply_opts zero_configOptions opts)) denv) = None"
  then have "ret (Load_stat c d opts w) =
     (case env_ParseWithOptions c d (prefix (apply_opts zero_configOptions opts)) denv of
        (Some e, d1) \<Rightarrow> Some e
      | (None, d1) \<Rightarrow>
          if SkipValidation \<in> set opts then None
          else validate_Struct c (defaults_SetDefaults c d1))"
    by (intro Load_stat_ret_after_file_step) simp
  with h assms show "ret (Load_stat c d opts w) = None"
    by (simp split: prod.splits option.splits)
qed

theorem skip_validation_returns_nil_witness:
  "SkipValidation \<in> set [SkipEnvFile, SkipValidation]
   \<and> ret (Load libraries (PtrStruct TestConfig_zero) [SkipEnvFile, SkipValidation] empty_world) = None
   \<and> Call_validate_Struct
       \<notin> set (calls_made empty_world
                (Load libraries (PtrStruct TestConfig_zero) [SkipEnvFile, SkipValidation] empty_world))
   \<and> field_value
        (struct_of (final_dest
           (Load libraries (PtrStruct TestConfig_zero) [SkipEnvFile, SkipValidation] empty_world)))
        ''Host'' = Some (VString [])
   \<and> spec_validate_Struct
        (final_dest (Load libraries (PtrStruct TestConfig_zero) [SkipEnvFile, SkipValidation] empty_world))
       \<noteq> None"
  using skip_validation_returns_nil
          [where opts = "[SkipEnvFile, SkipValidation]" and c = libraries
             and d = "PtrStruct TestConfig_zero" and w = empty_world and denv = Map.empty]
  by (simp add: run_defs)

section \<open>Facts about the messages of the modelled libraries\<close>

lemma sublist_in_append_right: "sublist x ys \<Longrightarrow> sublist x (ps @ ys)"
proof -
  assume "sublist x ys"
  then obtain a b where "ys = a @ x @ b" by (auto simp: sublist_def)
  then have "ps @ ys = (ps @ a) @ x @ b" by simp
  then show ?thesis unfolding sublist_def by blast
qed

lemma sublist_in_append_left: "sublist x ys \<Longrightarrow> sublist x (ys @ ss)"
proof -
  assume "sublist x ys"
  then obtain a b where "ys = a @ x @ b" by (auto simp: sublist_def)
  then have "ys @ ss = a @ x @ (b @ ss)" by simp
  then show ?thesis unfolding sublist_def by blast
qed

lemma sublist_strings_Join: "x \<in> set xs \<Longrightarrow> sublist x (strings_Join xs sep)"
proof (induction xs sep rule: strings_Join.induct)
  case (1 sep)
  then show ?case by simp
next
  case (2 y sep)
  then show ?case by simp
next
  case (3 y z zs sep)
  show ?case
  proof (cases "x = y")
    case True
    then show ?thesis by simp
  next
    case False
    with 3 have "sublist x (strings_Join (z # zs) sep)" by simp
    then have "sublist x ((y @ sep) @ strings_Join (z # zs) sep)"
      by (rule sublist_in_append_right)
    then show ?thesis by simp
  qed
qed

lemma violation_message_validation:
  "strings_Contains (violation_message fv) ''validation''"
proof -
  have "violation_message fv =
      (''Key: '' @ single_quoted (fd_name (fst fv)) @ '' Error:Field '') @ ''validation'' @
      ('' for '' @ single_quoted (fd_name (fst fv)) @ '' failed on the ''
         @ single_quoted ''required'' @ '' tag'')"
    by (simp add: violation_message_def)
  then show ?thesis unfolding strings_Contains_def sublist_def by blast
qed

lemma violation_message_name:
  "strings_Contains (violation_message fv) (fd_name (fst fv))"
proof -
  have "violation_message fv =
      (''Key: '' @ [CHR 0x27]) @ fd_name (fst fv) @
      ([CHR 0x27] @ '' Error:Field validation for '' @ single_quoted (fd_name (fst fv))
         @ '' failed on the '' @ single_quoted ''required'' @ '' tag'')"
    by (simp add: violation_message_def single_quoted_def)
  then show ?thesis unfolding strings_Contains_def sublist_def by blast
qed

lemma strings_Contains_trans:
  "strings_Contains s t \<Longrightarrow> strings_Contains t u \<Longrightarrow> strings_Contains s u"
  unfolding strings_Contains_def by (rule sublist_order.order.trans)

lemma strings_Contains_Join:
  "x \<in> set xs \<Longrightarrow> strings_Contains (strings_Join xs sep) x"
  unfolding strings_Contains_def by (rule sublist_strings_Join)

lemma validate_fields_message:
  assumes "violations s \<noteq> []"
  shows "\<exists>m. validate_fields s = Some (ValidationError m)
           \<and> strings_Contains m ''validation''
           \<and> (\<forall>fv \<in> set (violations s).
                 strings_Contains m (violation_message fv)
                 \<and> strings_Contains m (fd_name (fst fv)))"
proof -
  let ?m = "strings_Join (map violation_message (violations s)) [CHR 0x0A]"
  have v: "validate_fields s = Some (ValidationError ?m)"
    using assms by (simp add: validate_fields_def)
  have each: "strings_Contains ?m (violation_message fv)" if "fv \<in> set (violations s)" for fv
    using that by (intro strings_Contains_Join) simp
  obtain fv0 where fv0: "fv0 \<in> set (violations s)"
    using assms by (cases "violations s") auto
  have "strings_Contains ?m ''validation''"
    using each[OF fv0] violation_message_validation by (rule strings_Contains_trans)
  moreover have "strings_Contains ?m (fd_name (fst fv))" if "fv \<in> set (violations s)" for fv
    using each[OF that] violation_message_name by (rule strings_Contains_trans)
  ultimately show ?thesis using v each by blast
qed

lemma parse_error_message_field:
  "strings_Contains (parse_error_message f v raw) (''parse error on field '' @ quoted (fd_name f))"
proof -
  have "parse_error_message f v raw =
      [] @ (''parse error on field '' @ quoted (fd_name f)) @
      ('' of type '' @ quoted (type_name v) @ '': parsing '' @ quoted raw @ '': invalid syntax'')"
    by (simp add: parse_error_message_def)
  then show ?thesis unfolding strings_Contains_def sublist_def by blast
qed

lemma parse_error_message_raw:
  "strings_Contains (parse_error_message f v raw) (quoted raw)"
proof -
  have "parse_error_message f v raw =
      (''parse error on field '' @ quoted (fd_name f) @ '' of type '' @ quoted (type_name v)
         @ '': parsing '') @ quoted raw @ '': invalid syntax''"
    by (simp add: parse_error_message_def)
  then show ?thesis unfolding strings_Contains_def sublist_def by blast
qed

lemma decode_errors_member:
  assumes "(f, v) \<in> set s" and "env (p @ fd_env f) = Some raw" and "parse_as v raw = None"
  shows "parse_error_message f v raw \<in> set (decode_errors p env s)"
  using assms by (force simp: decode_errors_def decode_field_def)

lemma decode_error_message:
  assumes "(f, v) \<in> set s" and "env (p @ fd_env f) = Some raw" and "parse_as v raw = None"
  shows "\<exists>m. fst (spec_env_ParseWithOptions (PtrStruct s) p env) = Some (DecodeError m)
           \<and> strings_Contains m (''parse error on field '' @ quoted (fd_name f))
           \<and> strings_Contains m (quoted raw)"
proof -
  let ?errs = "decode_errors p env s"
  let ?m = "''env: '' @ strings_Join ?errs ''; ''"
  have mem: "parse_error_message f v raw \<in> set ?errs"
    using assms by (rule decode_errors_member)
  then have ne: "?errs \<noteq> []" by auto
  then have r: "fst (spec_env_ParseWithOptions (PtrStruct s) p env) = Some (DecodeError ?m)"
    by (simp add: Let_def)
  have "strings_Contains (strings_Join ?errs ''; '') (parse_error_message f v raw)"
    using mem by (rule strings_Contains_Join)
  then have c: "strings_Contains ?m (parse_error_message f v raw)"
    unfolding strings_Contains_def by (rule sublist_in_append_right)
  have "strings_Contains ?m (''parse error on field '' @ quoted (fd_name f))"
    using c parse_error_message_field by (rule strings_Contains_trans)
  moreover have "strings_Contains ?m (quoted raw)"
    using c parse_error_message_raw by (rule strings_Contains_trans)
  ultimately show ?thesis using r by blast
qed

text \<open>
  C2, as stated, fails for \<open>Load\<close> of \<^verbatim>\<open>config/config.go\<close>: it calls the file loader
  whenever \<open>SkipEnvFile\<close> was not applied, so with no \<^verbatim>\<open>.env\<close> file the loader's error
  is returned, nothing is logged and decoding is never reached (this is what the
  repository's test \<^verbatim>\<open>missing env file\<close> expects).
\<close>

theorem missing_env_file_nonfatal_counterexample:
  "files empty_world ''.env'' = None
   \<and> ret (Load libraries (PtrStruct TestConfig_zero) [] empty_world)
       = Some (FileLoadError ''open .env: no such file or directory'')
   \<and> strings_Contains
        (Error (the (ret (Load libraries (PtrStruct TestConfig_zero) [] empty_world)))) ''.env''
   \<and> slog_records (final_world (Load libraries (PtrStruct TestConfig_zero) [] empty_world)) = []
   \<and> calls_made empty_world (Load libraries (PtrStruct TestConfig_zero) [] empty_world)
       = [Call_godotenv_Load]"
  by (simp add: run_defs strings_Contains_def sublist_Cons_right prefix_Cons)

text \<open>
  C2, amended. In the version of \<open>Load\<close> that checks \<^verbatim>\<open>os.Stat("./.env")\<close> first, when
  \<open>SkipEnvFile\<close> was not applied and the file is absent, one debug record is logged,
  the file loader is not called, and the call continues with decoding on the unchanged
  environment: what it returns and leaves in the destination is what the remaining
  steps give. When the file is present and the loader fails, its error is returned as
  it is, the destination is untouched and the decoder is not called. \<open>Load\<close> of
  \<^verbatim>\<open>config/config.go\<close> calls the loader whether the file is there or not, and returns
  the loader's error as it is.
\<close>

theorem missing_env_file_logged_in_stat_version:
  assumes "SkipEnvFile \<notin> set opts"
  shows "(files w ''.env'' = None
          \<longrightarrow> slog_records (final_world (Load_stat c d opts w))
                = slog_records w @ [(LevelDebug, ''env file does not exists'')]
              \<and> Call_godotenv_Load \<notin> set (calls_made w (Load_stat c d opts w))
              \<and> hd (calls_made w (Load_stat c d opts w))
                  = Call_env_ParseWithOptions (prefix (apply_opts zero_configOptions opts))
              \<and> environ (final_world (Load_stat c d opts w)) = environ w
              \<and> ret (Load_stat c d opts w)
                  = ret (decode_default_validate c (apply_opts zero_configOptions opts) d w)
              \<and> final_dest (Load_stat c d opts w)
                  = final_dest (decode_default_validate c (apply_opts zero_configOptions opts) d w))
     \<and> (files w ''.env'' \<noteq> None \<and> godotenv_Load c (files w) (environ w) = Inl e
          \<longrightarrow> ret (Load_stat c d opts w) = Some e
              \<and> final_dest (Load_stat c d opts w) = d
              \<and> calls_made w (Load_stat c d opts w) = [Call_godotenv_Load])
     \<and> (godotenv_Load c (files w) (environ w) = Inl e
          \<longrightarrow> ret (Load c d opts w) = Some e
              \<and> final_dest (Load c d opts w) = d
              \<and> calls_made w (Load c d opts w) = [Call_godotenv_Load]
              \<and> slog_records (final_world (Load c d opts w)) = slog_records w)"
proof (intro conjI impI)
  assume absent: "files w ''.env'' = None"
  let ?w' = "w\<lparr>slog_records := slog_records w @ [(LevelDebug, ''env file does not exists'')]\<rparr>"
  let ?o = "apply_opts zero_configOptions opts"
  have eq: "Load_stat c d opts w = decode_default_validate c ?o d ?w'"
    using assms absent by (rule Load_stat_absent)
  show "slog_records (final_world (Load_stat c d opts w))
                = slog_records w @ [(LevelDebug, ''env file does not exists'')]"
    by (simp add: eq ddv_slog)
  have h: "((SkipEnvFile \<in> set opts \<or> files w ''.env'' = None) \<and> environ w = environ w) \<or>
           (SkipEnvFile \<notin> set opts \<and> files w ''.env'' \<noteq> None \<and>
            godotenv_Load c (files w) (environ w) = Inr (environ w))"
    using absent by simp
  note cs = Load_stat_calls_after_file_step[OF h, of d]
  show "Call_godotenv_Load \<notin> set (calls_made w (Load_stat c d opts w))"
    using cs absent by (simp split: option.splits)
  show "hd (calls_made w (Load_stat c d opts w)) = Call_env_ParseWithOptions (prefix ?o)"
    using cs absent by simp
  show "environ (final_world (Load_stat c d opts w)) = environ w"
    by (simp add: eq ddv_environ)
  show "ret (Load_stat c d opts w) = ret (decode_default_validate c ?o d w)"
    by (simp add: eq ddv_ret)
  show "final_dest (Load_stat c d opts w) = final_dest (decode_default_validate c ?o d w)"
    by (simp add: eq ddv_final_dest)
next
  assume h: "files w ''.env'' \<noteq> None \<and> godotenv_Load c (files w) (environ w) = Inl e"
  then obtain content where content: "files w ''.env'' = Some content" by auto
  have eq: "Load_stat c d opts w =
     \<lparr>ret = Some e, final_dest = d, final_world = record_call Call_godotenv_Load w\<rparr>"
    using assms content h by (intro Load_stat_file_error) simp_all
  show "ret (Load_stat c d opts w) = Some e" by (simp add: eq)
  show "final_dest (Load_stat c d opts w) = d" by (simp add: eq)
  show "calls_made w (Load_stat c d opts w) = [Call_godotenv_Load]"
    using assms content h by (intro Load_stat_calls_file_error) simp_all
next
  assume h: "godotenv_Load c (files w) (environ w) = Inl e"
  have eq: "Load c d opts w =
     \<lparr>ret = Some e, final_dest = d, final_world = record_call Call_godotenv_Load w\<rparr>"
    using assms h by (rule Load_file_error)
  show "ret (Load c d opts w) = Some e" by (simp add: eq)
  show "final_dest (Load c d opts w) = d" by (simp add: eq)
  show "calls_made w (Load c d opts w) = [Call_godotenv_Load]"
    using assms h by (rule Load_calls_file_error)
  show "slog_records (final_world (Load c d opts w)) = slog_records w"
    by (simp add: eq record_call_def)
qed

theorem missing_env_file_logged_in_stat_version_witness:
  "SkipEnvFile \<notin> set [] \<and> files empty_world ''.env'' = None
   \<and> slog_records (final_world (Load_stat libraries (PtrStruct TestConfig_zero) [] empty_world))
       = [(LevelDebug, ''env file does not exists'')]
   \<and> calls_made empty_world (Load_stat libraries (PtrStruct TestConfig_zero) [] empty_world)
       = [Call_env_ParseWithOptions [], Call_defaults_SetDefaults, Call_validate_Struct]
   \<and> (\<exists>m. ret (Load_stat libraries (PtrStruct TestConfig_zero) [] empty_world)
             = Some (ValidationError m))
   \<and> ret (Load_stat libraries (PtrStruct TestConfig_zero) []
            (empty_world\<lparr>files := [''.env'' \<mapsto> ''HOST'']\<rparr>))
       = Some (FileLoadError ''.env: malformed line'')"
  using missing_env_file_logged_in_stat_version
          [where opts = "[]" and w = empty_world and c = libraries
             and d = "PtrStruct TestConfig_zero"]
        missing_env_file_logged_in_stat_version
          [where opts = "[]" and w = "empty_world\<lparr>files := [''.env'' \<mapsto> ''HOST'']\<rparr>"
             and c = libraries and d = "PtrStruct TestConfig_zero"
             and e = "FileLoadError ''.env: malformed line''"]
  by (simp add: run_defs)

lemma Load_stat_environ_after_file_step:
  assumes "((SkipEnvFile \<in> set opts \<or> files w ''.env'' = None) \<and> denv = environ w) \<or>
           (SkipEnvFile \<notin> set opts \<and> files w ''.env'' \<noteq> None \<and>
            godotenv_Load c (files w) (environ w) = Inr denv)"
  shows "environ (final_world (Load_stat c d opts w)) = denv"
proof (cases "SkipEnvFile \<in> set opts")
  case True
  with assms show ?thesis by (simp add: Load_stat_skip ddv_environ)
next
  case False
  show ?thesis
  proof (cases "files w ''.env''")
    case None
    with False assms show ?thesis by (simp add: Load_stat_absent ddv_environ)
  next
    case (Some content)
    with False assms show ?thesis by (simp add: Load_stat_file_ok ddv_environ)
  qed
qed

lemma Load_files: "files (final_world (Load c d opts w)) = files w"
  by (cases "godotenv_Load c (files w) (environ w)")
     (simp_all add: Load_def Let_def ddv_files record_call_def)

lemma Load_slog: "slog_records (final_world (Load c d opts w)) = slog_records w"
  by (cases "godotenv_Load c (files w) (environ w)")
     (simp_all add: Load_def Let_def ddv_slog record_call_def)

lemma Load_stat_files: "files (final_world (Load_stat c d opts w)) = files w"
  by (cases "godotenv_Load c (files w) (environ w)")
     (simp_all add: Load_stat_def Let_def ddv_files record_call_def)

lemma Load_stat_slog:
  "slog_records (final_world (Load_stat c d opts w)) =
     (if SkipEnvFile \<notin> set opts \<and> files w ''.env'' = None
      then slog_records w @ [(LevelDebug, ''env file does not exists'')]
      else slog_records w)"
  by (cases "godotenv_Load c (files w) (environ w)")
     (simp_all add: Load_stat_def Let_def ddv_slog record_call_def)

text \<open>
  C9, as stated, fails for \<open>Load\<close> of \<^verbatim>\<open>config/config.go\<close>: with no \<^verbatim>\<open>.env\<close> file, no
  environment variables, validation not skipped and no \<open>SkipEnvFile\<close>, the file loader's
  error is returned before decoding and default injection, and \<^verbatim>\<open>Port\<close> is still 0.
\<close>

theorem port_default_kept_on_failure_counterexample:
  "files empty_world ''.env'' = None
   \<and> environ empty_world ''HOST'' = None \<and> environ empty_world ''PORT'' = None
   \<and> SkipValidation \<notin> set ([] :: Option list)
   \<and> ret (Load libraries (PtrStruct TestConfig_zero) [] empty_world) \<noteq> None
   \<and> field_value (struct_of (final_dest (Load libraries (PtrStruct TestConfig_zero) [] empty_world)))
        ''Port'' = Some (VInt 0)"
  by (simp add: run_defs)

text \<open>
  C9, amended. Neither version of \<open>Load\<close> changes the files of the working directory;
  \<open>Load\<close> of \<^verbatim>\<open>config/config.go\<close> logs nothing, the second version logs one debug
  record when the file step is not skipped and \<^verbatim>\<open>.env\<close> is absent. Once the file step is
  skipped or has succeeded, the destination \<open>Load\<close> leaves is the decoder's when the
  decoder fails and the default injector's otherwise, whether or not validation then
  fails; when the file loader fails the destination is untouched. For the structure of
  the tests (Host required, Port with default 8080), no \<^verbatim>\<open>.env\<close> file, no environment
  variables and validation not skipped: with \<open>SkipEnvFile\<close> applied, \<open>Load\<close> returns an
  error and Port holds 8080; so does the second version without \<open>SkipEnvFile\<close>.
\<close>

theorem destination_keeps_earlier_mutations:
  "files (final_world (Load c d opts w)) = files w
   \<and> slog_records (final_world (Load c d opts w)) = slog_records w
   \<and> files (final_world (Load_stat c d opts w)) = files w
   \<and> slog_records (final_world (Load_stat c d opts w)) =
       (if SkipEnvFile \<notin> set opts \<and> files w ''.env'' = None
        then slog_records w @ [(LevelDebug, ''env file does not exists'')]
        else slog_records w)
   \<and> (((SkipEnvFile \<in> set opts \<and> denv = environ w) \<or>
         (SkipEnvFile \<notin> set opts \<and> godotenv_Load c (files w) (environ w) = Inr denv))
        \<longrightarrow> environ (final_world (Load c d opts w)) = denv
            \<and> final_dest (Load c d opts w) =
                (case env_ParseWithOptions c d (prefix (apply_opts zero_configOptions opts)) denv of
                   (Some e, d1) \<Rightarrow> d1
                 | (None, d1) \<Rightarrow> defaults_SetDefaults c d1))
   \<and> ((((SkipEnvFile \<in> set opts \<or> files w ''.env'' = None) \<and> denv = environ w) \<or>
         (SkipEnvFile \<notin> set opts \<and> files w ''.env'' \<noteq> None \<and>
          godotenv_Load c (files w) (environ w) = Inr denv))
        \<longrightarrow> environ (final_world (Load_stat c d opts w)) = denv
            \<and> final_dest (Load_stat c d opts w) =
                (case env_ParseWithOptions c d (prefix (apply_opts zero_configOptions opts)) denv of
                   (Some e, d1) \<Rightarrow> d1
                 | (None, d1) \<Rightarrow> defaults_SetDefaults c d1))
   \<and> (SkipEnvFile \<notin> set opts \<and> godotenv_Load c (files w) (environ w) = Inl e
        \<longrightarrow> final_dest (Load c d opts w) = d)
   \<and> ret (Load libraries (PtrStruct TestConfig_zero) [SkipEnvFile] empty_world) \<noteq> None
   \<and> field_value (struct_of (final_dest
        (Load libraries (PtrStruct TestConfig_zero) [SkipEnvFile] empty_world))) ''Port''
       = Some (VInt 8080)
   \<and> ret (Load_stat libraries (PtrStruct TestConfig_zero) [] empty_world) \<noteq> None
   \<and> field_value (struct_of (final_dest
        (Load_stat libraries (PtrStruct TestConfig_zero) [] empty_world))) ''Port''
       = Some (VInt 8080)"
proof -
  have A: "environ (final_world (Load c d opts w)) = denv
            \<and> final_dest (Load c d opts w) =
                (case env_ParseWithOptions c d (prefix (apply_opts zero_configOptions opts)) denv of
                   (Some e, d1) \<Rightarrow> d1
                 | (None, d1) \<Rightarrow> defaults_SetDefaults c d1)"
    if h: "(SkipEnvFile \<in> set opts \<and> denv = environ w) \<or>
         (SkipEnvFile \<notin> set opts \<and> godotenv_Load c (files w) (environ w) = Inr denv)"
    using Load_environ_after_file_step[OF h] Load_dest_after_file_step[OF h] by simp
  have B: "environ (final_world (Load_stat c d opts w)) = denv
            \<and> final_dest (Load_stat c d opts w) =
                (case env_ParseWithOptions c d (prefix (apply_opts zero_configOptions opts)) denv of
                   (Some e, d1) \<Rightarrow> d1
                 | (None, d1) \<Rightarrow> defaults_SetDefaults c d1)"
    if h: "((SkipEnvFile \<in> set opts \<or> files w ''.env'' = None) \<and> denv = environ w) \<or>
         (SkipEnvFile \<notin> set opts \<and> files w ''.env'' \<noteq> None \<and>
          godotenv_Load c (files w) (environ w) = Inr denv)"
    using Load_stat_environ_after_file_step[OF h] Load_stat_dest_after_file_step[OF h] by simp
  have C: "final_dest (Load c d opts w) = d"
    if "SkipEnvFile \<notin> set opts \<and> godotenv_Load c (files w) (environ w) = Inl e"
    using that by (simp add: Load_file_error)
  have S1: "ret (Load libraries (PtrStruct TestConfig_zero) [SkipEnvFile] empty_world) \<noteq> None"
    by (simp add: run_defs)
  have S2: "field_value (struct_of (final_dest
        (Load libraries (PtrStruct TestConfig_zero) [SkipEnvFile] empty_world))) ''Port''
       = Some (VInt 8080)"
    by (simp add: run_defs)
  have S3: "ret (Load_stat libraries (PtrStruct TestConfig_zero) [] empty_world) \<noteq> None"
    by (simp add: run_defs)
  have S4: "field_value (struct_of (final_dest
        (Load_stat libraries (PtrStruct TestConfig_zero) [] empty_world))) ''Port''
       = Some (VInt 8080)"
    by (simp add: run_defs)
  from A B C S1 S2 S3 S4 Load_files[of c d opts w] Load_slog[of c d opts w]
       Load_stat_files[of c d opts w] Load_stat_slog[of c d opts w]
  show ?thesis by blast
qed

theorem destination_keeps_earlier_mutations_witness:
  "SkipEnvFile \<in> set [SkipEnvFile]
   \<and> final_dest (Load libraries (PtrStruct TestConfig_zero) [SkipEnvFile] empty_world)
       = defaults_SetDefaults libraries (PtrStruct TestConfig_zero)
   \<and> files (final_world (Load libraries (PtrStruct TestConfig_zero) [SkipEnvFile] empty_world))
        ''.env'' = None"
  using destination_keeps_earlier_mutations
          [where c = libraries and d = "PtrStruct TestConfig_zero" and opts = "[SkipEnvFile]"
             and w = empty_world and denv = Map.empty]
  by (simp add: run_defs)

lemma decode_errors_empty:
  "decode_errors p env s = [] \<Longrightarrow> fv \<in> set s \<Longrightarrow> \<exists>r. decode_field p env fv = Inr r"
  by (cases "decode_field p env fv") (auto simp: decode_errors_def)

lemma resolved_field:
  assumes "decode_field p env fv = Inr r"
  shows "fst (inject_field r) = fst fv
     \<and> (env (p @ fd_env (fst fv)) = None \<longrightarrow>
          (default_value fv = None \<or> \<not> is_zero (snd fv) \<longrightarrow> snd (inject_field r) = snd fv)
          \<and> (is_zero (snd fv) \<longrightarrow>
               (\<forall>dv. default_value fv = Some dv \<longrightarrow> snd (inject_field r) = dv)))
     \<and> (\<forall>raw. env (p @ fd_env (fst fv)) = Some raw \<longrightarrow>
          (\<exists>ev. parse_as (snd fv) raw = Some ev
             \<and> (default_value (fst fv, ev) = None \<or> \<not> is_zero ev \<longrightarrow> snd (inject_field r) = ev)
             \<and> (is_zero ev \<longrightarrow>
                  (\<forall>dv. default_value (fst fv, ev) = Some dv \<longrightarrow> snd (inject_field r) = dv))))"
  using assms
  by (auto simp: decode_field_def inject_field_def default_value_def split: option.splits)

lemma spec_pipeline_dest:
  assumes "fst (spec_env_ParseWithOptions (PtrStruct s) p env) = None"
  shows "spec_defaults_SetDefaults (snd (spec_env_ParseWithOptions (PtrStruct s) p env))
           = PtrStruct (map (\<lambda>fv. inject_field (decoded_field p env fv)) s)
       \<and> decode_errors p env s = []"
  using assms by (simp add: Let_def split: if_splits)

lemma Load_success_file_step:
  assumes "ret (Load c d opts w) = None"
  shows "\<exists>denv. (SkipEnvFile \<in> set opts \<and> denv = environ w) \<or>
           (SkipEnvFile \<notin> set opts \<and> godotenv_Load c (files w) (environ w) = Inr denv)"
proof (cases "SkipEnvFile \<in> set opts")
  case True
  then show ?thesis by simp
next
  case False
  with assms show ?thesis
    by (cases "godotenv_Load c (files w) (environ w)") (simp_all add: Load_file_error)
qed

lemma Load_stat_success_file_step:
  assumes "ret (Load_stat c d opts w) = None"
  shows "\<exists>denv. ((SkipEnvFile \<in> set opts \<or> files w ''.env'' = None) \<and> denv = environ w) \<or>
           (SkipEnvFile \<notin> set opts \<and> files w ''.env'' \<noteq> None \<and>
            godotenv_Load c (files w) (environ w) = Inr denv)"
proof (cases "SkipEnvFile \<in> set opts \<or> files w ''.env'' = None")
  case True
  then show ?thesis by blast
next
  case False
  then obtain content where "files w ''.env'' = Some content" "SkipEnvFile \<notin> set opts" by auto
  with assms show ?thesis
    by (cases "godotenv_Load c (files w) (environ w)") (simp_all add: Load_stat_file_error)
qed

lemma precedence_after_decode:
  assumes spec: "env_ParseWithOptions c = spec_env_ParseWithOptions"
      "defaults_SetDefaults c = spec_defaults_SetDefaults"
    and r: "(case env_ParseWithOptions c (PtrStruct s) p denv of
               (Some e, d1) \<Rightarrow> Some e
             | (None, d1) \<Rightarrow> x d1) = None"
    and fd: "fd = (case env_ParseWithOptions c (PtrStruct s) p denv of
                     (Some e, d1) \<Rightarrow> d1
                   | (None, d1) \<Rightarrow> defaults_SetDefaults c d1)"
  shows "fd = PtrStruct (map (\<lambda>fv. inject_field (decoded_field p denv fv)) s)
       \<and> decode_errors p denv s = []"
proof -
  have n: "fst (spec_env_ParseWithOptions (PtrStruct s) p denv) = None"
    using r spec by (auto split: prod.splits option.splits)
  from spec_pipeline_dest[OF n] fd spec n show ?thesis
    by (auto split: prod.splits option.splits)
qed

text \<open>
  C1, as stated, fails where it says that an environment value wins over a declared
  default even when it parses to the zero value: the default injector runs after the
  decoder and fills every field that holds its zero value, so with \<^verbatim>\<open>PORT=0\<close> and the
  default \<^verbatim>\<open>8080\<close> a successful \<open>Load\<close> leaves 8080 in \<^verbatim>\<open>Port\<close>.
\<close>

theorem env_zero_value_beats_default_counterexample:
  "ret (Load libraries (PtrStruct TestConfig_zero) [SkipEnvFile]
          (empty_world\<lparr>environ := [''HOST'' \<mapsto> ''localhost'', ''PORT'' \<mapsto> ''0'']\<rparr>)) = None
   \<and> environ (final_world (Load libraries (PtrStruct TestConfig_zero) [SkipEnvFile]
          (empty_world\<lparr>environ := [''HOST'' \<mapsto> ''localhost'', ''PORT'' \<mapsto> ''0'']\<rparr>))) ''PORT''
       = Some ''0''
   \<and> parse_as (VInt 0) ''0'' = Some (VInt 0)
   \<and> field_value (struct_of (final_dest (Load libraries (PtrStruct TestConfig_zero) [SkipEnvFile]
          (empty_world\<lparr>environ := [''HOST'' \<mapsto> ''localhost'', ''PORT'' \<mapsto> ''0'']\<rparr>)))) ''Port''
       = Some (VInt 8080)"
  by (simp add: run_defs)

text \<open>
  C1, amended. With the decoder and the default injector of the specification, after a
  successful call of either version of \<open>Load\<close> on a pointer to a structure the
  destination is a pointer to a structure with the same fields, and for each field,
  reading the environment as the call left it (with the configured prefix):
  \<^item> no environment value: the field keeps its previous value when it has no default
    (or the default literal does not parse, or the previous value is not zero), and
    takes the default's parsed value when the previous value is zero;
  \<^item> an environment value: it parses at the field's type, and the field takes the
    parsed value, unless that value is the type's zero value and the field has a
    default, in which case the field takes the default's parsed value.
\<close>

theorem decoding_precedence:
  assumes spec: "env_ParseWithOptions c = spec_env_ParseWithOptions"
      "defaults_SetDefaults c = spec_defaults_SetDefaults"
    and out: "out = Load c (PtrStruct s) opts w \<or> out = Load_stat c (PtrStruct s) opts w"
    and ok: "ret out = None"
  shows "\<exists>s'. final_dest out = PtrStruct s' \<and> length s' = length s
     \<and> (\<forall>i < length s.
          fst (s' ! i) = fst (s ! i)
        \<and> (environ (final_world out) (prefix (apply_opts zero_configOptions opts) @ fd_env (fst (s ! i)))
             = None \<longrightarrow>
             (default_value (s ! i) = None \<or> \<not> is_zero (snd (s ! i)) \<longrightarrow> snd (s' ! i) = snd (s ! i))
             \<and> (is_zero (snd (s ! i)) \<longrightarrow>
                  (\<forall>dv. default_value (s ! i) = Some dv \<longrightarrow> snd (s' ! i) = dv)))
        \<and> (\<forall>raw. environ (final_world out)
                     (prefix (apply_opts zero_configOptions opts) @ fd_env (fst (s ! i))) = Some raw
             \<longrightarrow> (\<exists>ev. parse_as (snd (s ! i)) raw = Some ev
                    \<and> (default_value (fst (s ! i), ev) = None \<or> \<not> is_zero ev \<longrightarrow> snd (s' ! i) = ev)
                    \<and> (is_zero ev \<longrightarrow>
                         (\<forall>dv. default_value (fst (s ! i), ev) = Some dv \<longrightarrow> snd (s' ! i) = dv)))))"
proof -
  let ?p = "prefix (apply_opts zero_configOptions opts)"
  have "\<exists>denv. environ (final_world out) = denv
          \<and> final_dest out = PtrStruct (map (\<lambda>fv. inject_field (decoded_field ?p denv fv)) s)
          \<and> decode_errors ?p denv s = []"
  proof (cases "out = Load c (PtrStruct s) opts w")
    case True
    with ok obtain denv where h: "(SkipEnvFile \<in> set opts \<and> denv = environ w) \<or>
           (SkipEnvFile \<notin> set opts \<and> godotenv_Load c (files w) (environ w) = Inr denv)"
      using Load_success_file_step by blast
    have "final_dest out = PtrStruct (map (\<lambda>fv. inject_field (decoded_field ?p denv fv)) s)
          \<and> decode_errors ?p denv s = []"
      using precedence_after_decode[OF spec _ Load_dest_after_file_step[OF h, of "PtrStruct s"]]
            Load_ret_after_file_step[OF h, of "PtrStruct s"] ok True
      by simp
    moreover have "environ (final_world out) = denv"
      using Load_environ_after_file_step[OF h] True by simp
    ultimately show ?thesis by blast
  next
    case False
    with out have eq: "out = Load_stat c (PtrStruct s) opts w" by simp
    with ok obtain denv where h: "((SkipEnvFile \<in> set opts \<or> files w ''.env'' = None) \<and> denv = environ w) \<or>
           (SkipEnvFile \<notin> set opts \<and> files w ''.env'' \<noteq> None \<and>
            godotenv_Load c (files w) (environ w) = Inr denv)"
      using Load_stat_success_file_step by blast
    have "final_dest out = PtrStruct (map (\<lambda>fv. inject_field (decoded_field ?p denv fv)) s)
          \<and> decode_errors ?p denv s = []"
      using precedence_after_decode[OF spec _ Load_stat_dest_after_file_step[OF h, of "PtrStruct s"]]
            Load_stat_ret_after_file_step[OF h, of "PtrStruct s"] ok eq
      by simp
    moreover have "environ (final_world out) = denv"
      using Load_stat_environ_after_file_step[OF h] eq by simp
    ultimately show ?thesis by blast
  qed
  then obtain denv where env: "environ (final_world out) = denv"
    and fd: "final_dest out = PtrStruct (map (\<lambda>fv. inject_field (decoded_field ?p denv fv)) s)"
    and noerr: "decode_errors ?p denv s = []"
    by blast
  let ?s' = "map (\<lambda>fv. inject_field (decoded_field ?p denv fv)) s"
  have each: "fst (?s' ! i) = fst (s ! i)
        \<and> (denv (?p @ fd_env (fst (s ! i))) = None \<longrightarrow>
             (default_value (s ! i) = None \<or> \<not> is_zero (snd (s ! i)) \<longrightarrow> snd (?s' ! i) = snd (s ! i))
             \<and> (is_zero (snd (s ! i)) \<longrightarrow>
                  (\<forall>dv. default_value (s ! i) = Some dv \<longrightarrow> snd (?s' ! i) = dv)))
        \<and> (\<forall>raw. denv (?p @ fd_env (fst (s ! i))) = Some raw
             \<longrightarrow> (\<exists>ev. parse_as (snd (s ! i)) raw = Some ev
                    \<and> (default_value (fst (s ! i), ev) = None \<or> \<not> is_zero ev \<longrightarrow> snd (?s' ! i) = ev)
                    \<and> (is_zero ev \<longrightarrow>
                         (\<forall>dv. default_value (fst (s ! i), ev) = Some dv \<longrightarrow> snd (?s' ! i) = dv))))"
    if i: "i < length s" for i
  proof -
    from i have "s ! i \<in> set s" by simp
    with noerr obtain r where r: "decode_field ?p denv (s ! i) = Inr r"
      using decode_errors_empty by blast
    then have "decoded_field ?p denv (s ! i) = r" by (simp add: decoded_field_def)
    with i have "?s' ! i = inject_field r" by simp
    with resolved_field[OF r] show ?thesis by simp
  qed
  have "length ?s' = length s" by simp
  with fd env each show ?thesis by blast
qed

theorem decoding_precedence_witness:
  "ret (Load libraries (PtrStruct TestConfig_zero) [SkipEnvFile]
          (empty_world\<lparr>environ := [''HOST'' \<mapsto> ''localhost'', ''PORT'' \<mapsto> ''9090'']\<rparr>)) = None
   \<and> (\<exists>s'. final_dest (Load libraries (PtrStruct TestConfig_zero) [SkipEnvFile]
          (empty_world\<lparr>environ := [''HOST'' \<mapsto> ''localhost'', ''PORT'' \<mapsto> ''9090'']\<rparr>))
           = PtrStruct s'
        \<and> snd (s' ! 1) = VInt 9090 \<and> snd (s' ! 2) = VBool False \<and> snd (s' ! 3) = VString [])"
proof -
  let ?w = "empty_world\<lparr>environ := [''HOST'' \<mapsto> ''localhost'', ''PORT'' \<mapsto> ''9090'']\<rparr>"
  let ?out = "Load libraries (PtrStruct TestConfig_zero) [SkipEnvFile] ?w"
  have spec: "env_ParseWithOptions libraries = spec_env_ParseWithOptions"
      "defaults_SetDefaults libraries = spec_defaults_SetDefaults"
    by (simp_all add: libraries_def)
  have out: "?out = Load libraries (PtrStruct TestConfig_zero) [SkipEnvFile] ?w
             \<or> ?out = Load_stat libraries (PtrStruct TestConfig_zero) [SkipEnvFile] ?w"
    by simp
  have ok: "ret ?out = None" by (simp add: run_defs)
  have env: "environ (final_world ?out) = [''HOST'' \<mapsto> ''localhost'', ''PORT'' \<mapsto> ''9090'']"
    by (simp add: Load_skip ddv_environ empty_world_def)
  from decoding_precedence[OF spec out ok] obtain s' where
    fd: "final_dest ?out = PtrStruct s'" and len: "length s' = length TestConfig_zero"
    and each: "\<And>i. i < length TestConfig_zero \<Longrightarrow>
          fst (s' ! i) = fst (TestConfig_zero ! i)
        \<and> (environ (final_world ?out)
              (prefix (apply_opts zero_configOptions [SkipEnvFile]) @ fd_env (fst (TestConfig_zero ! i)))
             = None \<longrightarrow>
             (default_value (TestConfig_zero ! i) = None \<or> \<not> is_zero (snd (TestConfig_zero ! i))
                \<longrightarrow> snd (s' ! i) = snd (TestConfig_zero ! i))
             \<and> (is_zero (snd (TestConfig_zero ! i)) \<longrightarrow>
                  (\<forall>dv. default_value (TestConfig_zero ! i) = Some dv \<longrightarrow> snd (s' ! i) = dv)))
        \<and> (\<forall>raw. environ (final_world ?out)
                     (prefix (apply_opts zero_configOptions [SkipEnvFile])
                        @ fd_env (fst (TestConfig_zero ! i))) = Some raw
             \<longrightarrow> (\<exists>ev. parse_as (snd (TestConfig_zero ! i)) raw = Some ev
                    \<and> (default_value (fst (TestConfig_zero ! i), ev) = None \<or> \<not> is_zero ev
                         \<longrightarrow> snd (s' ! i) = ev)
                    \<and> (is_zero ev \<longrightarrow>
                         (\<forall>dv. default_value (fst (TestConfig_zero ! i), ev) = Some dv
                            \<longrightarrow> snd (s' ! i) = dv))))"
    by blast
  have l: "length TestConfig_zero = 4" by (simp add: TestConfig_zero_def)
  have p1: "snd (s' ! 1) = VInt 9090"
    using each[of 1] by (simp add: env l) (simp add: run_defs)
  have p2: "snd (s' ! 2) = VBool False"
    using each[of 2] by (simp add: env l) (simp add: run_defs)
  have p3: "snd (s' ! 3) = VString []"
    using each[of 3] by (simp add: env l) (simp add: run_defs)
  from ok fd p1 p2 p3 show ?thesis by blast
qed

section \<open>Properties of the loader, the options and each step\<close>

lemma Load_file_loader_called:
  "(Call_godotenv_Load \<in> set (calls_made w (Load c d opts w))) = (SkipEnvFile \<notin> set opts)"
proof (cases "SkipEnvFile \<in> set opts")
  case True
  then have "(SkipEnvFile \<in> set opts \<and> environ w = environ w) \<or>
      (SkipEnvFile \<notin> set opts \<and> godotenv_Load c (files w) (environ w) = Inr (environ w))"
    by simp
  from Load_calls_after_file_step[OF this, of d] True show ?thesis
    by (simp split: option.splits)
next
  case False
  show ?thesis
  proof (cases "godotenv_Load c (files w) (environ w)")
    case (Inl e)
    with False show ?thesis by (simp add: Load_calls_file_error)
  next
    case (Inr denv)
    with False have "(SkipEnvFile \<in> set opts \<and> denv = environ w) \<or>
      (SkipEnvFile \<notin> set opts \<and> godotenv_Load c (files w) (environ w) = Inr denv)"
      by simp
    from Load_calls_after_file_step[OF this, of d] False show ?thesis by simp
  qed
qed

lemma Load_stat_file_loader_called:
  "(Call_godotenv_Load \<in> set (calls_made w (Load_stat c d opts w)))
     = (SkipEnvFile \<notin> set opts \<and> files w ''.env'' \<noteq> None)"
proof (cases "SkipEnvFile \<in> set opts \<or> files w ''.env'' = None")
  case True
  then have "((SkipEnvFile \<in> set opts \<or> files w ''.env'' = None) \<and> environ w = environ w) \<or>
      (SkipEnvFile \<notin> set opts \<and> files w ''.env'' \<noteq> None \<and>
       godotenv_Load c (files w) (environ w) = Inr (environ w))"
    by simp
  from Load_stat_calls_after_file_step[OF this, of d] True show ?thesis
    by (auto split: option.splits)
next
  case False
  then obtain content where content: "files w ''.env'' = Some content"
    and ns: "SkipEnvFile \<notin> set opts"
    by auto
  show ?thesis
  proof (cases "godotenv_Load c (files w) (environ w)")
    case (Inl e)
    with ns content show ?thesis by (simp add: Load_stat_calls_file_error)
  next
    case (Inr denv)
    with ns content have "((SkipEnvFile \<in> set opts \<or> files w ''.env'' = None) \<and> denv = environ w) \<or>
      (SkipEnvFile \<notin> set opts \<and> files w ''.env'' \<noteq> None \<and>
       godotenv_Load c (files w) (environ w) = Inr denv)"
      by simp
    from Load_stat_calls_after_file_step[OF this, of d] ns content show ?thesis by simp
  qed
qed

text \<open>
  C7. The options are applied in call order to a freshly zeroed options record, and the
  last write wins: a second \<open>WithPrefix\<close> overwrites the first, the two boolean options
  are idempotent. After any option list, the prefix is the one of the last
  \<open>WithPrefix\<close> (empty when there is none), \<open>skipEnv\<close> holds exactly when \<open>SkipEnvFile\<close>
  was given and \<open>skipValid\<close> exactly when \<open>SkipValidation\<close> was given. Both versions of
  \<open>Load\<close> behave with two successive \<open>WithPrefix\<close> options as with the second alone,
  and the decoder is only ever called with the last prefix. \<open>Load\<close> runs on the record
  so built: it calls the file loader exactly when \<open>SkipEnvFile\<close> is not among the
  options (and, in the second version, the file is there); once the file step is skipped
  or has succeeded it calls the decoder with the last prefix (the empty one when no
  \<open>WithPrefix\<close> was given), returns what the decoder and, unless \<open>SkipValidation\<close>
  is among the options, the validator return, and makes exactly the calls listed.
\<close>

theorem options_last_write_wins:
  "apply_opts o1 (xs @ ys) = apply_opts (apply_opts o1 xs) ys
   \<and> apply_Option (WithPrefix q) (apply_Option (WithPrefix p) o1) = apply_Option (WithPrefix q) o1
   \<and> apply_Option SkipEnvFile (apply_Option SkipEnvFile o1) = apply_Option SkipEnvFile o1
   \<and> apply_Option SkipValidation (apply_Option SkipValidation o1) = apply_Option SkipValidation o1
   \<and> ((\<forall>r. WithPrefix r \<notin> set ys) \<longrightarrow>
        prefix (apply_opts zero_configOptions (xs @ WithPrefix q # ys)) = q)
   \<and> ((\<forall>r. WithPrefix r \<notin> set opts) \<longrightarrow> prefix (apply_opts zero_configOptions opts) = [])
   \<and> skipEnv (apply_opts zero_configOptions opts) = (SkipEnvFile \<in> set opts)
   \<and> skipValid (apply_opts zero_configOptions opts) = (SkipValidation \<in> set opts)
   \<and> Load c d (xs @ WithPrefix p # WithPrefix q # ys) w = Load c d (xs @ WithPrefix q # ys) w
   \<and> Load_stat c d (xs @ WithPrefix p # WithPrefix q # ys) w
       = Load_stat c d (xs @ WithPrefix q # ys) w
   \<and> ((\<forall>r. WithPrefix r \<notin> set ys) \<longrightarrow>
        (\<forall>r. Call_env_ParseWithOptions r \<in> set (calls_made w (Load c d (xs @ WithPrefix q # ys) w))
               \<or> Call_env_ParseWithOptions r
                    \<in> set (calls_made w (Load_stat c d (xs @ WithPrefix q # ys) w))
             \<longrightarrow> r = q))
   \<and> (Call_godotenv_Load \<in> set (calls_made w (Load c d opts w))) = (SkipEnvFile \<notin> set opts)
   \<and> (Call_godotenv_Load \<in> set (calls_made w (Load_stat c d opts w)))
       = (SkipEnvFile \<notin> set opts \<and> files w ''.env'' \<noteq> None)
   \<and> (((SkipEnvFile \<in> set opts \<and> denv = environ w) \<or>
         (SkipEnvFile \<notin> set opts \<and> godotenv_Load c (files w) (environ w) = Inr denv))
        \<longrightarrow> ret (Load c d opts w) =
              (case env_ParseWithOptions c d (prefix (apply_opts zero_configOptions opts)) denv of
                 (Some e, d1) \<Rightarrow> Some e
               | (None, d1) \<Rightarrow>
                   if SkipValidation \<in> set opts then None
                   else validate_Struct c (defaults_SetDefaults c d1))
            \<and> calls_made w (Load c d opts w) =
                (if SkipEnvFile \<in> set opts then [] else [Call_godotenv_Load]) @
                Call_env_ParseWithOptions (prefix (apply_opts zero_configOptions opts)) #
                  (case fst (env_ParseWithOptions c d
                               (prefix (apply_opts zero_configOptions opts)) denv) of
                     Some e \<Rightarrow> []
                   | None \<Rightarrow>
                       Call_defaults_SetDefaults #
                         (if SkipValidation \<in> set opts then [] else [Call_validate_Struct])))
   \<and> ((((SkipEnvFile \<in> set opts \<or> files w ''.env'' = None) \<and> denv = environ w) \<or>
         (SkipEnvFile \<notin> set opts \<and> files w ''.env'' \<noteq> None \<and>
          godotenv_Load c (files w) (environ w) = Inr denv))
        \<longrightarrow> ret (Load_stat c d opts w) =
              (case env_ParseWithOptions c d (prefix (apply_opts zero_configOptions opts)) denv of
                 (Some e, d1) \<Rightarrow> Some e
               | (None, d1) \<Rightarrow>
                   if SkipValidation \<in> set opts then None
                   else validate_Struct c (defaults_SetDefaults c d1))
            \<and> calls_made w (Load_stat c d opts w) =
                (if SkipEnvFile \<in> set opts \<or> files w ''.env'' = None then []
                 else [Call_godotenv_Load]) @
                Call_env_ParseWithOptions (prefix (apply_opts zero_configOptions opts)) #
                  (case fst (env_ParseWithOptions c d
                               (prefix (apply_opts zero_configOptions opts)) denv) of
                     Some e \<Rightarrow> []
                   | None \<Rightarrow>
                       Call_defaults_SetDefaults #
                         (if SkipValidation \<in> set opts then [] else [Call_validate_Struct])))
   \<and> ((\<forall>r. WithPrefix r \<notin> set ys)
        \<and> ((SkipEnvFile \<in> set (xs @ ys) \<and> denv = environ w) \<or>
            (SkipEnvFile \<notin> set (xs @ ys) \<and> godotenv_Load c (files w) (environ w) = Inr denv))
        \<longrightarrow> Call_env_ParseWithOptions q
              \<in> set (calls_made w (Load c d (xs @ WithPrefix q # ys) w))
            \<and> ret (Load c d (xs @ WithPrefix q # ys) w) =
                (case env_ParseWithOptions c d q denv of
                   (Some e, d1) \<Rightarrow> Some e
                 | (None, d1) \<Rightarrow>
                     if SkipValidation \<in> set (xs @ ys) then None
                     else validate_Struct c (defaults_SetDefaults c d1))
            \<and> final_dest (Load c d (xs @ WithPrefix q # ys) w) =
                (case env_ParseWithOptions c d q denv of
                   (Some e, d1) \<Rightarrow> d1
                 | (None, d1) \<Rightarrow> defaults_SetDefaults c d1))
   \<and> ((\<forall>r. WithPrefix r \<notin> set opts)
        \<and> ((SkipEnvFile \<in> set opts \<and> denv = environ w) \<or>
            (SkipEnvFile \<notin> set opts \<and> godotenv_Load c (files w) (environ w) = Inr denv))
        \<longrightarrow> Call_env_ParseWithOptions [] \<in> set (calls_made w (Load c d opts w))
            \<and> ret (Load c d opts w) =
                (case env_ParseWithOptions c d [] denv of
                   (Some e, d1) \<Rightarrow> Some e
                 | (None, d1) \<Rightarrow>
                     if SkipValidation \<in> set opts then None
                     else validate_Struct c (defaults_SetDefaults c d1)))"
proof -
  have a: "apply_opts o1 (xs @ ys) = apply_opts (apply_opts o1 xs) ys"
    by (rule apply_opts_append)
  have b: "apply_Option (WithPrefix q) (apply_Option (WithPrefix p) o1) = apply_Option (WithPrefix q) o1"
    "apply_Option SkipEnvFile (apply_Option SkipEnvFile o1) = apply_Option SkipEnvFile o1"
    "apply_Option SkipValidation (apply_Option SkipValidation o1) = apply_Option SkipValidation o1"
    by simp_all
  have c: "(\<forall>r. WithPrefix r \<notin> set ys) \<longrightarrow>
        prefix (apply_opts zero_configOptions (xs @ WithPrefix q # ys)) = q"
    by (simp add: prefix_apply_opts_last)
  have d: "(\<forall>r. WithPrefix r \<notin> set opts) \<longrightarrow> prefix (apply_opts zero_configOptions opts) = []"
    by (simp add: prefix_apply_opts_none zero_configOptions_def)
  have e: "(\<forall>r. WithPrefix r \<notin> set ys) \<longrightarrow>
        (\<forall>r. Call_env_ParseWithOptions r \<in> set (calls_made w (Load c d (xs @ WithPrefix q # ys) w))
               \<or> Call_env_ParseWithOptions r
                    \<in> set (calls_made w (Load_stat c d (xs @ WithPrefix q # ys) w))
             \<longrightarrow> r = q)"
    using Load_decoder_prefix Load_stat_decoder_prefix prefix_apply_opts_last by blast
  have f: "(Call_godotenv_Load \<in> set (calls_made w (Load c d opts w))) = (SkipEnvFile \<notin> set opts)"
    by (rule Load_file_loader_called)
  have g: "(Call_godotenv_Load \<in> set (calls_made w (Load_stat c d opts w)))
       = (SkipEnvFile \<notin> set opts \<and> files w ''.env'' \<noteq> None)"
    by (rule Load_stat_file_loader_called)
  have h: "ret (Load c d opts w) =
              (case env_ParseWithOptions c d (prefix (apply_opts zero_configOptions opts)) denv of
                 (Some e, d1) \<Rightarrow> Some e
               | (None, d1) \<Rightarrow>
                   if SkipValidation \<in> set opts then None
                   else validate_Struct c (defaults_SetDefaults c d1))
            \<and> calls_made w (Load c d opts w) =
                (if SkipEnvFile \<in> set opts then [] else [Call_godotenv_Load]) @
                Call_env_ParseWithOptions (prefix (apply_opts zero_configOptions opts)) #
                  (case fst (env_ParseWithOptions c d
                               (prefix (apply_opts zero_configOptions opts)) denv) of
                     Some e \<Rightarrow> []
                   | None \<Rightarrow>
                       Call_defaults_SetDefaults #
                         (if SkipValidation \<in> set opts then [] else [Call_validate_Struct]))"
    if fs: "(SkipEnvFile \<in> set opts \<and> denv = environ w) \<or>
         (SkipEnvFile \<notin> set opts \<and> godotenv_Load c (files w) (environ w) = Inr denv)"
    using Load_ret_after_file_step[OF fs, of d] Load_calls_after_file_step[OF fs, of d] by simp
  have i: "ret (Load_stat c d opts w) =
              (case env_ParseWithOptions c d (prefix (apply_opts zero_configOptions opts)) denv of
                 (Some e, d1) \<Rightarrow> Some e
               | (None, d1) \<Rightarrow>
                   if SkipValidation \<in> set opts then None
                   else validate_Struct c (defaults_SetDefaults c d1))
            \<and> calls_made w (Load_stat c d opts w) =
                (if SkipEnvFile \<in> set opts \<or> files w ''.env'' = None then []
                 else [Call_godotenv_Load]) @
                Call_env_ParseWithOptions (prefix (apply_opts zero_configOptions opts)) #
                  (case fst (env_ParseWithOptions c d
                               (prefix (apply_opts zero_configOptions opts)) denv) of
                     Some e \<Rightarrow> []
                   | None \<Rightarrow>
                       Call_defaults_SetDefaults #
                         (if SkipValidation \<in> set opts then [] else [Call_validate_Struct]))"
    if fs: "((SkipEnvFile \<in> set opts \<or> files w ''.env'' = None) \<and> denv = environ w) \<or>
         (SkipEnvFile \<notin> set opts \<and> files w ''.env'' \<noteq> None \<and>
          godotenv_Load c (files w) (environ w) = Inr denv)"
    using Load_stat_ret_after_file_step[OF fs, of d] Load_stat_calls_after_file_step[OF fs, of d]
    by simp
  have j: "Call_env_ParseWithOptions q
              \<in> set (calls_made w (Load c d (xs @ WithPrefix q # ys) w))
            \<and> ret (Load c d (xs @ WithPrefix q # ys) w) =
                (case env_ParseWithOptions c d q denv of
                   (Some e, d1) \<Rightarrow> Some e
                 | (None, d1) \<Rightarrow>
                     if SkipValidation \<in> set (xs @ ys) then None
                     else validate_Struct c (defaults_SetDefaults c d1))
            \<and> final_dest (Load c d (xs @ WithPrefix q # ys) w) =
                (case env_ParseWithOptions c d q denv of
                   (Some e, d1) \<Rightarrow> d1
                 | (None, d1) \<Rightarrow> defaults_SetDefaults c d1)"
    if np: "\<forall>r. WithPrefix r \<notin> set ys"
      and fs: "(SkipEnvFile \<in> set (xs @ ys) \<and> denv = environ w) \<or>
            (SkipEnvFile \<notin> set (xs @ ys) \<and> godotenv_Load c (files w) (environ w) = Inr denv)"
  proof -
    let ?opts = "xs @ WithPrefix q # ys"
    have pq: "prefix (apply_opts zero_configOptions ?opts) = q"
      using np by (simp add: prefix_apply_opts_last)
    have fs': "(SkipEnvFile \<in> set ?opts \<and> denv = environ w) \<or>
            (SkipEnvFile \<notin> set ?opts \<and> godotenv_Load c (files w) (environ w) = Inr denv)"
      using fs by auto
    from Load_ret_after_file_step[OF fs', of d] Load_calls_after_file_step[OF fs', of d]
         Load_dest_after_file_step[OF fs', of d] pq
    show ?thesis by (auto split: prod.splits option.splits)
  qed
  have k: "Call_env_ParseWithOptions [] \<in> set (calls_made w (Load c d opts w))
            \<and> ret (Load c d opts w) =
                (case env_ParseWithOptions c d [] denv of
                   (Some e, d1) \<Rightarrow> Some e
                 | (None, d1) \<Rightarrow>
                     if SkipValidation \<in> set opts then None
                     else validate_Struct c (defaults_SetDefaults c d1))"
    if np: "\<forall>r. WithPrefix r \<notin> set opts"
      and fs: "(SkipEnvFile \<in> set opts \<and> denv = environ w) \<or>
            (SkipEnvFile \<notin> set opts \<and> godotenv_Load c (files w) (environ w) = Inr denv)"
  proof -
    have pq: "prefix (apply_opts zero_configOptions opts) = []"
      using np by (simp add: prefix_apply_opts_none zero_configOptions_def)
    from Load_ret_after_file_step[OF fs, of d] Load_calls_after_file_step[OF fs, of d] pq
    show ?thesis by (auto split: prod.splits option.splits)
  qed
  have l: "Load c d (xs @ WithPrefix p # WithPrefix q # ys) w = Load c d (xs @ WithPrefix q # ys) w"
    "Load_stat c d (xs @ WithPrefix p # WithPrefix q # ys) w
       = Load_stat c d (xs @ WithPrefix q # ys) w"
    by (rule Load_twice_prefix, rule Load_stat_twice_prefix)
  have m: "skipEnv (apply_opts zero_configOptions opts) = (SkipEnvFile \<in> set opts)"
    "skipValid (apply_opts zero_configOptions opts) = (SkipValidation \<in> set opts)"
    by simp_all
  show ?thesis
    apply (intro conjI)
    subgoal by (rule a)
    subgoal by (rule b(1))
    subgoal by (rule b(2))
    subgoal by (rule b(3))
    subgoal by (rule c)
    subgoal by (rule d)
    subgoal by (rule m(1))
    subgoal by (rule m(2))
    subgoal by (rule l(1))
    subgoal by (rule l(2))
    subgoal by (rule e)
    subgoal by (rule f)
    subgoal by (rule g)
    subgoal using h by blast
    subgoal using i by blast
    subgoal using j by blast
    subgoal using k by blast
    done
qed

theorem options_last_write_wins_witness:
  "prefix (apply_opts zero_configOptions [WithPrefix ''APP_'', WithPrefix ''TEST_'', SkipEnvFile])
     = ''TEST_''
   \<and> calls_made (empty_world\<lparr>environ := [''APP_HOST'' \<mapsto> ''a'', ''TEST_HOST'' \<mapsto> ''t'']\<rparr>)
        (Load libraries (PtrStruct TestConfig_zero)
           [WithPrefix ''APP_'', WithPrefix ''TEST_'', SkipEnvFile]
           (empty_world\<lparr>environ := [''APP_HOST'' \<mapsto> ''a'', ''TEST_HOST'' \<mapsto> ''t'']\<rparr>))
       = [Call_env_ParseWithOptions ''TEST_'', Call_defaults_SetDefaults, Call_validate_Struct]
   \<and> ret (Load libraries (PtrStruct TestConfig_zero)
           [WithPrefix ''APP_'', WithPrefix ''TEST_'', SkipEnvFile]
           (empty_world\<lparr>environ := [''APP_HOST'' \<mapsto> ''a'', ''TEST_HOST'' \<mapsto> ''t'']\<rparr>)) = None
   \<and> field_value (struct_of (final_dest (Load libraries (PtrStruct TestConfig_zero)
           [WithPrefix ''APP_'', WithPrefix ''TEST_'', SkipEnvFile]
           (empty_world\<lparr>environ := [''APP_HOST'' \<mapsto> ''a'', ''TEST_HOST'' \<mapsto> ''t'']\<rparr>))))
        ''Host'' = Some (VString ''t'')
   \<and> calls_made empty_world (Load libraries (PtrStruct TestConfig_zero) [] empty_world)
       = [Call_godotenv_Load]"
  using options_last_write_wins
          [where xs = "[WithPrefix ''APP_'']" and q = "''TEST_''" and ys = "[SkipEnvFile]"
             and opts = "[WithPrefix ''APP_'', WithPrefix ''TEST_'', SkipEnvFile]"
             and w = "empty_world\<lparr>environ := [''APP_HOST'' \<mapsto> ''a'', ''TEST_HOST'' \<mapsto> ''t'']\<rparr>"
             and c = libraries and d = "PtrStruct TestConfig_zero"
             and denv = "[''APP_HOST'' \<mapsto> ''a'', ''TEST_HOST'' \<mapsto> ''t'']"]
  by (simp add: run_defs)

text \<open>
  C5. With validation not skipped, the file step skipped or successful (leaving the
  environment \<open>denv\<close>) and decoding successful, both versions of \<open>Load\<close> return
  whatever error the validator gives for the destination after default injection, and
  leave that destination in place. With the validator of the specification and at least one
  required field still at its zero value, the error is a \<open>ValidationError\<close> whose
  message contains \<^verbatim>\<open>validation\<close> and, for every violated field, that field's line
  and name.
\<close>

theorem validation_error_lists_every_violation:
  assumes skip: "SkipValidation \<notin> set opts"
    and dec: "env_ParseWithOptions c d (prefix (apply_opts zero_configOptions opts)) denv = (None, d1)"
  shows "(((SkipEnvFile \<in> set opts \<and> denv = environ w) \<or>
           (SkipEnvFile \<notin> set opts \<and> godotenv_Load c (files w) (environ w) = Inr denv))
          \<longrightarrow> ret (Load c d opts w) = validate_Struct c (defaults_SetDefaults c d1)
              \<and> final_dest (Load c d opts w) = defaults_SetDefaults c d1)
     \<and> ((((SkipEnvFile \<in> set opts \<or> files w ''.env'' = None) \<and> denv = environ w) \<or>
           (SkipEnvFile \<notin> set opts \<and> files w ''.env'' \<noteq> None \<and>
            godotenv_Load c (files w) (environ w) = Inr denv))
          \<longrightarrow> ret (Load_stat c d opts w) = validate_Struct c (defaults_SetDefaults c d1)
              \<and> final_dest (Load_stat c d opts w) = defaults_SetDefaults c d1)
     \<and> (validate_Struct c = spec_validate_Struct \<and> defaults_SetDefaults c d1 = PtrStruct s2
          \<and> violations s2 \<noteq> []
          \<longrightarrow> (\<exists>m. validate_Struct c (defaults_SetDefaults c d1) = Some (ValidationError m)
                 \<and> strings_Contains m ''validation''
                 \<and> (\<forall>fv \<in> set (violations s2).
                       strings_Contains m (violation_message fv)
                       \<and> strings_Contains m (fd_name (fst fv)))))"
proof (intro conjI impI)
  assume h: "(SkipEnvFile \<in> set opts \<and> denv = environ w) \<or>
           (SkipEnvFile \<notin> set opts \<and> godotenv_Load c (files w) (environ w) = Inr denv)"
  show "ret (Load c d opts w) = validate_Struct c (defaults_SetDefaults c d1)"
    using Load_ret_after_file_step[OF h, of d] skip dec by simp
  show "final_dest (Load c d opts w) = defaults_SetDefaults c d1"
    using Load_dest_after_file_step[OF h, of d] dec by simp
next
  assume h: "((SkipEnvFile \<in> set opts \<or> files w ''.env'' = None) \<and> denv = environ w) \<or>
           (SkipEnvFile \<notin> set opts \<and> files w ''.env'' \<noteq> None \<and>
            godotenv_Load c (files w) (environ w) = Inr denv)"
  show "ret (Load_stat c d opts w) = validate_Struct c (defaults_SetDefaults c d1)"
    using Load_stat_ret_after_file_step[OF h, of d] skip dec by simp
  show "final_dest (Load_stat c d opts w) = defaults_SetDefaults c d1"
    using Load_stat_dest_after_file_step[OF h, of d] dec by simp
next
  assume h: "validate_Struct c = spec_validate_Struct \<and> defaults_SetDefaults c d1 = PtrStruct s2
          \<and> violations s2 \<noteq> []"
  then have "validate_Struct c (defaults_SetDefaults c d1) = validate_fields s2" by simp
  with validate_fields_message[of s2] h
  show "\<exists>m. validate_Struct c (defaults_SetDefaults c d1) = Some (ValidationError m)
                 \<and> strings_Contains m ''validation''
                 \<and> (\<forall>fv \<in> set (violations s2).
                       strings_Contains m (violation_message fv)
                       \<and> strings_Contains m (fd_name (fst fv)))"
    by simp
qed

theorem validation_error_lists_every_violation_witness:
  "SkipValidation \<notin> set [SkipEnvFile]
   \<and> (\<exists>m. ret (Load libraries
              (PtrStruct
                 [(\<lparr>fd_name = ''Host'', fd_env = ''HOST'', fd_default = None,
                     fd_required = True\<rparr>, VString []),
                  (\<lparr>fd_name = ''Port'', fd_env = ''PORT'', fd_default = Some ''8080'',
                     fd_required = False\<rparr>, VInt 0),
                  (\<lparr>fd_name = ''Token'', fd_env = ''TOKEN'', fd_default = None,
                     fd_required = True\<rparr>, VString [])])
              [SkipEnvFile] empty_world)
            = Some (ValidationError m)
          \<and> strings_Contains m ''validation''
          \<and> strings_Contains m ''Host'' \<and> strings_Contains m ''Token''
          \<and> strings_Contains m
               (violation_message (\<lparr>fd_name = ''Host'', fd_env = ''HOST'', fd_default = None,
                                     fd_required = True\<rparr>, VString []))
          \<and> strings_Contains m
               (violation_message (\<lparr>fd_name = ''Token'', fd_env = ''TOKEN'', fd_default = None,
                                     fd_required = True\<rparr>, VString [])))"
proof -
  let ?host = "(\<lparr>fd_name = ''Host'', fd_env = ''HOST'', fd_default = None,
                  fd_required = True\<rparr>, VString [])"
  let ?token = "(\<lparr>fd_name = ''Token'', fd_env = ''TOKEN'', fd_default = None,
                   fd_required = True\<rparr>, VString [])"
  let ?s = "[?host,
             (\<lparr>fd_name = ''Port'', fd_env = ''PORT'', fd_default = Some ''8080'',
                fd_required = False\<rparr>, VInt 0),
             ?token]"
  let ?s2 = "map inject_field ?s"
  have skip: "SkipValidation \<notin> set [SkipEnvFile]" by simp
  have dec: "env_ParseWithOptions libraries (PtrStruct ?s)
               (prefix (apply_opts zero_configOptions [SkipEnvFile])) Map.empty
             = (None, PtrStruct ?s)"
    by (simp add: run_defs)
  have viol: "violations ?s2 = [?host, ?token]"
    by (simp add: run_defs)
  note t = validation_error_lists_every_violation
             [OF skip dec, where w = empty_world and ?s2.0 = ?s2]
  have fstep: "SkipEnvFile \<in> set [SkipEnvFile] \<and> Map.empty = environ empty_world"
    by (simp add: empty_world_def)
  have r: "ret (Load libraries (PtrStruct ?s) [SkipEnvFile] empty_world)
        = validate_Struct libraries (defaults_SetDefaults libraries (PtrStruct ?s))"
    using t fstep by blast
  have "validate_Struct libraries = spec_validate_Struct
        \<and> defaults_SetDefaults libraries (PtrStruct ?s) = PtrStruct ?s2
        \<and> violations ?s2 \<noteq> []"
    using viol by (simp add: libraries_def)
  with t obtain m where m: "validate_Struct libraries
          (defaults_SetDefaults libraries (PtrStruct ?s)) = Some (ValidationError m)"
      "strings_Contains m ''validation''"
      "\<forall>fv \<in> set (violations ?s2). strings_Contains m (violation_message fv)
                       \<and> strings_Contains m (fd_name (fst fv))"
    by blast
  from m(3) viol have "strings_Contains m ''Host''" "strings_Contains m ''Token''"
      "strings_Contains m (violation_message ?host)"
      "strings_Contains m (violation_message ?token)"
    by simp_all
  with r m(1,2) skip show ?thesis by auto
qed

text \<open>
  C4, as stated, fails for a call that does not reach the decoder: with \<^verbatim>\<open>PORT=invalid\<close>,
  no \<^verbatim>\<open>.env\<close> file and no \<open>SkipEnvFile\<close>, \<open>Load\<close> of \<^verbatim>\<open>config/config.go\<close> returns the
  file loader's error after the one call to the file loader; the decoder is never
  called and no \<open>DecodeError\<close> is returned.
\<close>

theorem decode_error_for_every_call_counterexample:
  "environ (empty_world\<lparr>environ := [''PORT'' \<mapsto> ''invalid'']\<rparr>) ''PORT'' = Some ''invalid''
   \<and> parse_as (VInt 0) ''invalid'' = None
   \<and> ret (Load libraries (PtrStruct TestConfig_zero) []
            (empty_world\<lparr>environ := [''PORT'' \<mapsto> ''invalid'']\<rparr>))
       = Some (FileLoadError ''open .env: no such file or directory'')
   \<and> calls_made (empty_world\<lparr>environ := [''PORT'' \<mapsto> ''invalid'']\<rparr>)
        (Load libraries (PtrStruct TestConfig_zero) []
            (empty_world\<lparr>environ := [''PORT'' \<mapsto> ''invalid'']\<rparr>))
       = [Call_godotenv_Load]"
  by (simp add: run_defs)

text \<open>
  C4, amended. Once the file step is skipped or has succeeded (leaving the environment
  \<open>denv\<close>): whatever the decoder is, when it returns an error both versions of \<open>Load\<close>
  return that error, leave the destination as the decoder left it and make no call after
  the decoder's, so neither the default injector nor the validator runs; and with the
  decoder of the specification, a field whose variable is set to a string that does not
  parse at the field's type makes \<open>Load\<close> return a \<open>DecodeError\<close> whose message
  contains \<^verbatim>\<open>parse error on field "<name>"\<close> and the quoted raw string. When the file
  loader fails, its error is what \<open>Load\<close> returns.
\<close>

theorem decode_error_aborts_before_defaults:
  "(((SkipEnvFile \<in> set opts \<and> denv = environ w) \<or>
     (SkipEnvFile \<notin> set opts \<and> godotenv_Load c (files w) (environ w) = Inr denv))
    \<longrightarrow> (\<forall>e d1. env_ParseWithOptions c d (prefix (apply_opts zero_configOptions opts)) denv
                     = (Some e, d1)
             \<longrightarrow> ret (Load c d opts w) = Some e
                 \<and> final_dest (Load c d opts w) = d1
                 \<and> calls_made w (Load c d opts w)
                     = (if SkipEnvFile \<in> set opts then [] else [Call_godotenv_Load])
                       @ [Call_env_ParseWithOptions (prefix (apply_opts zero_configOptions opts))])
        \<and> (env_ParseWithOptions c = spec_env_ParseWithOptions \<and> d = PtrStruct s
             \<and> (f, v) \<in> set s
             \<and> denv (prefix (apply_opts zero_configOptions opts) @ fd_env f) = Some raw
             \<and> parse_as v raw = None
             \<longrightarrow> (\<exists>m. ret (Load c d opts w) = Some (DecodeError m)
                    \<and> strings_Contains m (''parse error on field '' @ quoted (fd_name f))
                    \<and> strings_Contains m (quoted raw))
                 \<and> Call_defaults_SetDefaults \<notin> set (calls_made w (Load c d opts w))
                 \<and> Call_validate_Struct \<notin> set (calls_made w (Load c d opts w))))
   \<and> ((((SkipEnvFile \<in> set opts \<or> files w ''.env'' = None) \<and> denv = environ w) \<or>
        (SkipEnvFile \<notin> set opts \<and> files w ''.env'' \<noteq> None \<and>
         godotenv_Load c (files w) (environ w) = Inr denv))
    \<longrightarrow> (\<forall>e d1. env_ParseWithOptions c d (prefix (apply_opts zero_configOptions opts)) denv
                     = (Some e, d1)
             \<longrightarrow> ret (Load_stat c d opts w) = Some e
                 \<and> final_dest (Load_stat c d opts w) = d1
                 \<and> calls_made w (Load_stat c d opts w)
                     = (if SkipEnvFile \<in> set opts \<or> files w ''.env'' = None then []
                        else [Call_godotenv_Load])
                       @ [Call_env_ParseWithOptions (prefix (apply_opts zero_configOptions opts))])
        \<and> (env_ParseWithOptions c = spec_env_ParseWithOptions \<and> d = PtrStruct s
             \<and> (f, v) \<in> set s
             \<and> denv (prefix (apply_opts zero_configOptions opts) @ fd_env f) = Some raw
             \<and> parse_as v raw = None
             \<longrightarrow> (\<exists>m. ret (Load_stat c d opts w) = Some (DecodeError m)
                    \<and> strings_Contains m (''parse error on field '' @ quoted (fd_name f))
                    \<and> strings_Contains m (quoted raw))
                 \<and> Call_defaults_SetDefaults \<notin> set (calls_made w (Load_stat c d opts w))
                 \<and> Call_validate_Struct \<notin> set (calls_made w (Load_stat c d opts w))))
   \<and> (SkipEnvFile \<notin> set opts \<and> godotenv_Load c (files w) (environ w) = Inl e0
        \<longrightarrow> ret (Load c d opts w) = Some e0
            \<and> calls_made w (Load c d opts w) = [Call_godotenv_Load])
   \<and> (SkipEnvFile \<notin> set opts \<and> files w ''.env'' \<noteq> None
        \<and> godotenv_Load c (files w) (environ w) = Inl e0
        \<longrightarrow> ret (Load_stat c d opts w) = Some e0
            \<and> calls_made w (Load_stat c d opts w) = [Call_godotenv_Load])"
proof -
  let ?p = "prefix (apply_opts zero_configOptions opts)"
  have spec_dec: "\<exists>m d1. env_ParseWithOptions c d ?p denv = (Some (DecodeError m), d1)
                    \<and> strings_Contains m (''parse error on field '' @ quoted (fd_name f))
                    \<and> strings_Contains m (quoted raw)"
    if h: "env_ParseWithOptions c = spec_env_ParseWithOptions \<and> d = PtrStruct s
             \<and> (f, v) \<in> set s \<and> denv (?p @ fd_env f) = Some raw \<and> parse_as v raw = None"
  proof -
    from h decode_error_message[of f v s denv ?p raw]
    obtain m where m: "fst (spec_env_ParseWithOptions (PtrStruct s) ?p denv) = Some (DecodeError m)"
        "strings_Contains m (''parse error on field '' @ quoted (fd_name f))"
        "strings_Contains m (quoted raw)"
      by blast
    obtain x d1 where xd: "spec_env_ParseWithOptions (PtrStruct s) ?p denv = (x, d1)"
      by (cases "spec_env_ParseWithOptions (PtrStruct s) ?p denv")
    with m(1) have "x = Some (DecodeError m)" by simp
    with xd h m show ?thesis by auto
  qed
  have A1: "ret (Load c d opts w) = Some e \<and> final_dest (Load c d opts w) = d1
           \<and> calls_made w (Load c d opts w)
               = (if SkipEnvFile \<in> set opts then [] else [Call_godotenv_Load])
                 @ [Call_env_ParseWithOptions ?p]"
    if fs: "(SkipEnvFile \<in> set opts \<and> denv = environ w) \<or>
            (SkipEnvFile \<notin> set opts \<and> godotenv_Load c (files w) (environ w) = Inr denv)"
      and dec: "env_ParseWithOptions c d ?p denv = (Some e, d1)" for e d1
    using Load_ret_after_file_step[OF fs, of d] Load_dest_after_file_step[OF fs, of d]
          Load_calls_after_file_step[OF fs, of d] dec
    by simp
  have B1: "ret (Load_stat c d opts w) = Some e \<and> final_dest (Load_stat c d opts w) = d1
           \<and> calls_made w (Load_stat c d opts w)
               = (if SkipEnvFile \<in> set opts \<or> files w ''.env'' = None then []
                  else [Call_godotenv_Load])
                 @ [Call_env_ParseWithOptions ?p]"
    if fs: "((SkipEnvFile \<in> set opts \<or> files w ''.env'' = None) \<and> denv = environ w) \<or>
            (SkipEnvFile \<notin> set opts \<and> files w ''.env'' \<noteq> None \<and>
             godotenv_Load c (files w) (environ w) = Inr denv)"
      and dec: "env_ParseWithOptions c d ?p denv = (Some e, d1)" for e d1
    using Load_stat_ret_after_file_step[OF fs, of d] Load_stat_dest_after_file_step[OF fs, of d]
          Load_stat_calls_after_file_step[OF fs, of d] dec
    by simp
  have A2: "(\<exists>m. ret (Load c d opts w) = Some (DecodeError m)
                    \<and> strings_Contains m (''parse error on field '' @ quoted (fd_name f))
                    \<and> strings_Contains m (quoted raw))
                 \<and> Call_defaults_SetDefaults \<notin> set (calls_made w (Load c d opts w))
                 \<and> Call_validate_Struct \<notin> set (calls_made w (Load c d opts w))"
    if fs: "(SkipEnvFile \<in> set opts \<and> denv = environ w) \<or>
            (SkipEnvFile \<notin> set opts \<and> godotenv_Load c (files w) (environ w) = Inr denv)"
      and h: "env_ParseWithOptions c = spec_env_ParseWithOptions \<and> d = PtrStruct s
             \<and> (f, v) \<in> set s \<and> denv (?p @ fd_env f) = Some raw \<and> parse_as v raw = None"
  proof -
    from spec_dec[OF h] obtain m d1 where
      m: "env_ParseWithOptions c d ?p denv = (Some (DecodeError m), d1)"
         "strings_Contains m (''parse error on field '' @ quoted (fd_name f))"
         "strings_Contains m (quoted raw)"
      by blast
    from A1[OF fs m(1)] m(2,3) show ?thesis by auto
  qed
  have B2: "(\<exists>m. ret (Load_stat c d opts w) = Some (DecodeError m)
                    \<and> strings_Contains m (''parse error on field '' @ quoted (fd_name f))
                    \<and> strings_Contains m (quoted raw))
                 \<and> Call_defaults_SetDefaults \<notin> set (calls_made w (Load_stat c d opts w))
                 \<and> Call_validate_Struct \<notin> set (calls_made w (Load_stat c d opts w))"
    if fs: "((SkipEnvFile \<in> set opts \<or> files w ''.env'' = None) \<and> denv = environ w) \<or>
            (SkipEnvFile \<notin> set opts \<and> files w ''.env'' \<noteq> None \<and>
             godotenv_Load c (files w) (environ w) = Inr denv)"
      and h: "env_ParseWithOptions c = spec_env_ParseWithOptions \<and> d = PtrStruct s
             \<and> (f, v) \<in> set s \<and> denv (?p @ fd_env f) = Some raw \<and> parse_as v raw = None"
  proof -
    from spec_dec[OF h] obtain m d1 where
      m: "env_ParseWithOptions c d ?p denv = (Some (DecodeError m), d1)"
         "strings_Contains m (''parse error on field '' @ quoted (fd_name f))"
         "strings_Contains m (quoted raw)"
      by blast
    from B1[OF fs m(1)] m(2,3) show ?thesis by auto
  qed
  have C: "ret (Load c d opts w) = Some e0 \<and> calls_made w (Load c d opts w) = [Call_godotenv_Load]"
    if "SkipEnvFile \<notin> set opts \<and> godotenv_Load c (files w) (environ w) = Inl e0"
    using that Load_calls_file_error[of opts c w e0 d] by (simp add: Load_file_error)
  have D: "ret (Load_stat c d opts w) = Some e0
           \<and> calls_made w (Load_stat c d opts w) = [Call_godotenv_Load]"
    if "SkipEnvFile \<notin> set opts \<and> files w ''.env'' \<noteq> None
        \<and> godotenv_Load c (files w) (environ w) = Inl e0"
    using that Load_stat_calls_file_error[of opts w _ c e0 d]
    by (auto simp: Load_stat_file_error)
  show ?thesis
    apply (intro conjI impI allI)
    subgoal for e d1 using A1[of e d1] by blast
    subgoal for e d1 using A1[of e d1] by blast
    subgoal for e d1 using A1[of e d1] by blast
    subgoal using A2 by blast
    subgoal using A2 by blast
    subgoal using A2 by blast
    subgoal for e d1 using B1[of e d1] by blast
    subgoal for e d1 using B1[of e d1] by blast
    subgoal for e d1 using B1[of e d1] by blast
    subgoal using B2 by blast
    subgoal using B2 by blast
    subgoal using B2 by blast
    subgoal using C by blast
    subgoal using C by blast
    subgoal using D by blast
    subgoal using D by blast
    done
qed

theorem decode_error_aborts_before_defaults_witness:
  "\<exists>m. ret (Load libraries (PtrStruct TestConfig_zero) [SkipEnvFile]
              (empty_world\<lparr>environ := [''PORT'' \<mapsto> ''invalid'']\<rparr>)) = Some (DecodeError m)
        \<and> strings_Contains m (''parse error on field '' @ quoted ''Port'')
        \<and> calls_made (empty_world\<lparr>environ := [''PORT'' \<mapsto> ''invalid'']\<rparr>)
             (Load libraries (PtrStruct TestConfig_zero) [SkipEnvFile]
                (empty_world\<lparr>environ := [''PORT'' \<mapsto> ''invalid'']\<rparr>))
            = [Call_env_ParseWithOptions []]
        \<and> field_value (struct_of (final_dest
              (Load libraries (PtrStruct TestConfig_zero) [SkipEnvFile]
                 (empty_world\<lparr>environ := [''PORT'' \<mapsto> ''invalid'']\<rparr>)))) ''Port'' = Some (VInt 0)"
proof -
  let ?w = "empty_world\<lparr>environ := [''PORT'' \<mapsto> ''invalid'']\<rparr>"
  let ?denv = "[''PORT'' \<mapsto> ''invalid'']"
  let ?f = "\<lparr>fd_name = ''Port'', fd_env = ''PORT'', fd_default = Some ''8080'', fd_required = False\<rparr>"
  note t = decode_error_aborts_before_defaults
             [where opts = "[SkipEnvFile]" and c = libraries and d = "PtrStruct TestConfig_zero"
                and w = ?w and denv = ?denv and s = TestConfig_zero and f = ?f and v = "VInt 0"
                and raw = "''invalid''"]
  have fstep: "(SkipEnvFile \<in> set [SkipEnvFile] \<and> ?denv = environ ?w) \<or>
     (SkipEnvFile \<notin> set [SkipEnvFile] \<and> godotenv_Load libraries (files ?w) (environ ?w) = Inr ?denv)"
    by (simp add: empty_world_def)
  have hyp: "env_ParseWithOptions libraries = spec_env_ParseWithOptions
        \<and> PtrStruct TestConfig_zero = PtrStruct TestConfig_zero
        \<and> (?f, VInt 0) \<in> set TestConfig_zero
        \<and> ?denv (prefix (apply_opts zero_configOptions [SkipEnvFile]) @ fd_env ?f) = Some ''invalid''
        \<and> parse_as (VInt 0) ''invalid'' = None"
    by (simp add: run_defs)
  from t fstep hyp obtain m where m:
      "ret (Load libraries (PtrStruct TestConfig_zero) [SkipEnvFile] ?w) = Some (DecodeError m)"
      "strings_Contains m (''parse error on field '' @ quoted (fd_name ?f))"
    by blast
  have cm: "calls_made ?w (Load libraries (PtrStruct TestConfig_zero) [SkipEnvFile] ?w)
            = [Call_env_ParseWithOptions []]"
    by (simp add: run_defs)
  have fv: "field_value (struct_of (final_dest
              (Load libraries (PtrStruct TestConfig_zero) [SkipEnvFile] ?w))) ''Port'' = Some (VInt 0)"
    by (simp add: run_defs)
  from m cm fv show ?thesis by auto
qed

lemma spec_env_ParseWithOptions_shape:
  assumes "\<forall>s. d \<noteq> PtrStruct s"
  shows "spec_env_ParseWithOptions d p env =
           (Some (ShapeError (if d = Nil_dest then ''expected a pointer''
                              else ''expected a pointer to a struct'')), d)"
  using assms by (cases d) simp_all

lemma expected_a_pointer_in_both:
  "strings_Contains (if d = Nil_dest then ''expected a pointer''
                     else ''expected a pointer to a struct'') ''expected a pointer''"
proof -
  have "''expected a pointer to a struct'' = ''expected a pointer'' @ '' to a struct''" by simp
  then have "sublist ''expected a pointer'' ''expected a pointer to a struct''"
    by (metis sublist_append_rightI)
  then show ?thesis by (simp add: strings_Contains_def)
qed

text \<open>
  C3, as stated, fails: \<open>Load\<close> has no shape check of its own. The shape error comes
  from the decoder, which is the second step, so with \<^verbatim>\<open>Load(nil)\<close> and a \<^verbatim>\<open>.env\<close> file
  holding \<^verbatim>\<open>HOST=x\<close> the file loader is called first and the process environment is
  changed before the shape error is returned; and with no \<^verbatim>\<open>.env\<close> file, \<open>Load\<close> of
  \<^verbatim>\<open>config/config.go\<close> returns the file loader's error, not a shape error.
\<close>

theorem shape_error_immediate_counterexample:
  "ret (Load libraries Nil_dest [] (empty_world\<lparr>files := [''.env'' \<mapsto> ''HOST=x'']\<rparr>))
     = Some (ShapeError (Error (the (ret
         (Load libraries Nil_dest [] (empty_world\<lparr>files := [''.env'' \<mapsto> ''HOST=x'']\<rparr>))))))
   \<and> calls_made (empty_world\<lparr>files := [''.env'' \<mapsto> ''HOST=x'']\<rparr>)
        (Load libraries Nil_dest [] (empty_world\<lparr>files := [''.env'' \<mapsto> ''HOST=x'']\<rparr>))
       = [Call_godotenv_Load, Call_env_ParseWithOptions []]
   \<and> environ (empty_world\<lparr>files := [''.env'' \<mapsto> ''HOST=x'']\<rparr>) ''HOST'' = None
   \<and> environ (final_world
        (Load libraries Nil_dest [] (empty_world\<lparr>files := [''.env'' \<mapsto> ''HOST=x'']\<rparr>))) ''HOST''
       = Some ''x''
   \<and> ret (Load libraries Nil_dest [] empty_world)
       = Some (FileLoadError (Error (the (ret (Load libraries Nil_dest [] empty_world)))))
   \<and> calls_made empty_world (Load libraries Nil_dest [] empty_world) = [Call_godotenv_Load]"
  by (simp add: run_defs)

text \<open>
  C3, amended. The shape error is the decoder's. Whatever the decoder is, once the file
  step is skipped or has succeeded, a \<open>ShapeError\<close> from the decoder is what both
  versions of \<open>Load\<close> return, with the destination as the decoder left it and no call
  after the decoder's, so neither the default injector nor the validator runs. With the
  decoder of the specification and a destination that is not a pointer to a structure,
  \<open>Load\<close> returns a \<open>ShapeError\<close>, whose message contains \<^verbatim>\<open>expected a pointer\<close>
  when the destination is nil, and leaves the destination as it was. The file loader is
  called before the decoder unless \<open>SkipEnvFile\<close> was applied (or, in the second
  version, the file is absent), and when it fails its error is what \<open>Load\<close> returns.
\<close>

theorem shape_error_from_decoder:
  "(((SkipEnvFile \<in> set opts \<and> denv = environ w) \<or>
     (SkipEnvFile \<notin> set opts \<and> godotenv_Load c (files w) (environ w) = Inr denv))
    \<longrightarrow> (\<forall>m d1. env_ParseWithOptions c d (prefix (apply_opts zero_configOptions opts)) denv
                     = (Some (ShapeError m), d1)
             \<longrightarrow> ret (Load c d opts w) = Some (ShapeError m)
                 \<and> final_dest (Load c d opts w) = d1
                 \<and> calls_made w (Load c d opts w)
                     = (if SkipEnvFile \<in> set opts then [] else [Call_godotenv_Load])
                       @ [Call_env_ParseWithOptions (prefix (apply_opts zero_configOptions opts))])
        \<and> (env_ParseWithOptions c = spec_env_ParseWithOptions \<and> (\<forall>s. d \<noteq> PtrStruct s)
             \<longrightarrow> (\<exists>m. ret (Load c d opts w) = Some (ShapeError m)
                      \<and> (d = Nil_dest \<longrightarrow> strings_Contains m ''expected a pointer''))
                 \<and> final_dest (Load c d opts w) = d
                 \<and> calls_made w (Load c d opts w)
                     = (if SkipEnvFile \<in> set opts then [] else [Call_godotenv_Load])
                       @ [Call_env_ParseWithOptions (prefix (apply_opts zero_configOptions opts))]))
   \<and> ((((SkipEnvFile \<in> set opts \<or> files w ''.env'' = None) \<and> denv = environ w) \<or>
        (SkipEnvFile \<notin> set opts \<and> files w ''.env'' \<noteq> None \<and>
         godotenv_Load c (files w) (environ w) = Inr denv))
    \<longrightarrow> (\<forall>m d1. env_ParseWithOptions c d (prefix (apply_opts zero_configOptions opts)) denv
                     = (Some (ShapeError m), d1)
             \<longrightarrow> ret (Load_stat c d opts w) = Some (ShapeError m)
                 \<and> final_dest (Load_stat c d opts w) = d1
                 \<and> calls_made w (Load_stat c d opts w)
                     = (if SkipEnvFile \<in> set opts \<or> files w ''.env'' = None then []
                        else [Call_godotenv_Load])
                       @ [Call_env_ParseWithOptions (prefix (apply_opts zero_configOptions opts))])
        \<and> (env_ParseWithOptions c = spec_env_ParseWithOptions \<and> (\<forall>s. d \<noteq> PtrStruct s)
             \<longrightarrow> (\<exists>m. ret (Load_stat c d opts w) = Some (ShapeError m)
                      \<and> (d = Nil_dest \<longrightarrow> strings_Contains m ''expected a pointer''))
                 \<and> final_dest (Load_stat c d opts w) = d
                 \<and> calls_made w (Load_stat c d opts w)
                     = (if SkipEnvFile \<in> set opts \<or> files w ''.env'' = None then []
                        else [Call_godotenv_Load])
                       @ [Call_env_ParseWithOptions (prefix (apply_opts zero_configOptions opts))]))
   \<and> (SkipEnvFile \<notin> set opts \<and> godotenv_Load c (files w) (environ w) = Inl e
        \<longrightarrow> ret (Load c d opts w) = Some e \<and> final_dest (Load c d opts w) = d
            \<and> calls_made w (Load c d opts w) = [Call_godotenv_Load])
   \<and> (SkipEnvFile \<notin> set opts \<and> files w ''.env'' \<noteq> None
        \<and> godotenv_Load c (files w) (environ w) = Inl e
        \<longrightarrow> ret (Load_stat c d opts w) = Some e \<and> final_dest (Load_stat c d opts w) = d
            \<and> calls_made w (Load_stat c d opts w) = [Call_godotenv_Load])"
proof -
  let ?p = "prefix (apply_opts zero_configOptions opts)"
  let ?m = "if d = Nil_dest then ''expected a pointer'' else ''expected a pointer to a struct''"
  have dec: "env_ParseWithOptions c d ?p denv = (Some (ShapeError ?m), d)"
    if "env_ParseWithOptions c = spec_env_ParseWithOptions \<and> (\<forall>s. d \<noteq> PtrStruct s)"
    using that spec_env_ParseWithOptions_shape[of d ?p denv] by simp
  have msg: "d = Nil_dest \<longrightarrow> strings_Contains ?m ''expected a pointer''"
    using expected_a_pointer_in_both[of d] by (cases "d = Nil_dest") simp_all
  have G1: "ret (Load c d opts w) = Some (ShapeError m)
              \<and> final_dest (Load c d opts w) = d1
              \<and> calls_made w (Load c d opts w)
                  = (if SkipEnvFile \<in> set opts then [] else [Call_godotenv_Load])
                    @ [Call_env_ParseWithOptions ?p]"
    if h: "(SkipEnvFile \<in> set opts \<and> denv = environ w) \<or>
           (SkipEnvFile \<notin> set opts \<and> godotenv_Load c (files w) (environ w) = Inr denv)"
      and g: "env_ParseWithOptions c d ?p denv = (Some (ShapeError m), d1)" for m d1
    using Load_ret_after_file_step[OF h, of d] Load_dest_after_file_step[OF h, of d]
          Load_calls_after_file_step[OF h, of d] g
    by simp
  have G2: "ret (Load_stat c d opts w) = Some (ShapeError m)
              \<and> final_dest (Load_stat c d opts w) = d1
              \<and> calls_made w (Load_stat c d opts w)
                  = (if SkipEnvFile \<in> set opts \<or> files w ''.env'' = None then []
                     else [Call_godotenv_Load])
                    @ [Call_env_ParseWithOptions ?p]"
    if h: "((SkipEnvFile \<in> set opts \<or> files w ''.env'' = None) \<and> denv = environ w) \<or>
           (SkipEnvFile \<notin> set opts \<and> files w ''.env'' \<noteq> None \<and>
            godotenv_Load c (files w) (environ w) = Inr denv)"
      and g: "env_ParseWithOptions c d ?p denv = (Some (ShapeError m), d1)" for m d1
    using Load_stat_ret_after_file_step[OF h, of d] Load_stat_dest_after_file_step[OF h, of d]
          Load_stat_calls_after_file_step[OF h, of d] g
    by simp
  have A: "(\<exists>m. ret (Load c d opts w) = Some (ShapeError m)
                   \<and> (d = Nil_dest \<longrightarrow> strings_Contains m ''expected a pointer''))
              \<and> final_dest (Load c d opts w) = d
              \<and> calls_made w (Load c d opts w)
                  = (if SkipEnvFile \<in> set opts then [] else [Call_godotenv_Load])
                    @ [Call_env_ParseWithOptions ?p]"
    if h: "(SkipEnvFile \<in> set opts \<and> denv = environ w) \<or>
           (SkipEnvFile \<notin> set opts \<and> godotenv_Load c (files w) (environ w) = Inr denv)"
      and sp: "env_ParseWithOptions c = spec_env_ParseWithOptions \<and> (\<forall>s. d \<noteq> PtrStruct s)"
    using G1[OF h dec[OF sp]] msg by blast
  have B: "(\<exists>m. ret (Load_stat c d opts w) = Some (ShapeError m)
                   \<and> (d = Nil_dest \<longrightarrow> strings_Contains m ''expected a pointer''))
              \<and> final_dest (Load_stat c d opts w) = d
              \<and> calls_made w (Load_stat c d opts w)
                  = (if SkipEnvFile \<in> set opts \<or> files w ''.env'' = None then []
                     else [Call_godotenv_Load])
                    @ [Call_env_ParseWithOptions ?p]"
    if h: "((SkipEnvFile \<in> set opts \<or> files w ''.env'' = None) \<and> denv = environ w) \<or>
           (SkipEnvFile \<notin> set opts \<and> files w ''.env'' \<noteq> None \<and>
            godotenv_Load c (files w) (environ w) = Inr denv)"
      and sp: "env_ParseWithOptions c = spec_env_ParseWithOptions \<and> (\<forall>s. d \<noteq> PtrStruct s)"
    using G2[OF h dec[OF sp]] msg by blast
  have C: "ret (Load c d opts w) = Some e \<and> final_dest (Load c d opts w) = d
              \<and> calls_made w (Load c d opts w) = [Call_godotenv_Load]"
    if "SkipEnvFile \<notin> set opts \<and> godotenv_Load c (files w) (environ w) = Inl e"
    using that Load_calls_file_error[of opts c w e d] by (simp add: Load_file_error)
  have D: "ret (Load_stat c d opts w) = Some e \<and> final_dest (Load_stat c d opts w) = d
              \<and> calls_made w (Load_stat c d opts w) = [Call_godotenv_Load]"
    if "SkipEnvFile \<notin> set opts \<and> files w ''.env'' \<noteq> None
          \<and> godotenv_Load c (files w) (environ w) = Inl e"
    using that Load_stat_calls_file_error[of opts w _ c e d] by (auto simp: Load_stat_file_error)
  have P1: "(\<forall>m d1. env_ParseWithOptions c d ?p denv = (Some (ShapeError m), d1)
             \<longrightarrow> ret (Load c d opts w) = Some (ShapeError m)
                 \<and> final_dest (Load c d opts w) = d1
                 \<and> calls_made w (Load c d opts w)
                     = (if SkipEnvFile \<in> set opts then [] else [Call_godotenv_Load])
                       @ [Call_env_ParseWithOptions ?p])
        \<and> (env_ParseWithOptions c = spec_env_ParseWithOptions \<and> (\<forall>s. d \<noteq> PtrStruct s)
             \<longrightarrow> (\<exists>m. ret (Load c d opts w) = Some (ShapeError m)
                      \<and> (d = Nil_dest \<longrightarrow> strings_Contains m ''expected a pointer''))
                 \<and> final_dest (Load c d opts w) = d
                 \<and> calls_made w (Load c d opts w)
                     = (if SkipEnvFile \<in> set opts then [] else [Call_godotenv_Load])
                       @ [Call_env_ParseWithOptions ?p])"
    if h: "(SkipEnvFile \<in> set opts \<and> denv = environ w) \<or>
           (SkipEnvFile \<notin> set opts \<and> godotenv_Load c (files w) (environ w) = Inr denv)"
    using G1[OF h] A[OF h] by blast
  have P2: "(\<forall>m d1. env_ParseWithOptions c d ?p denv = (Some (ShapeError m), d1)
             \<longrightarrow> ret (Load_stat c d opts w) = Some (ShapeError m)
                 \<and> final_dest (Load_stat c d opts w) = d1
                 \<and> calls_made w (Load_stat c d opts w)
                     = (if SkipEnvFile \<in> set opts \<or> files w ''.env'' = None then []
                        else [Call_godotenv_Load])
                       @ [Call_env_ParseWithOptions ?p])
        \<and> (env_ParseWithOptions c = spec_env_ParseWithOptions \<and> (\<forall>s. d \<noteq> PtrStruct s)
             \<longrightarrow> (\<exists>m. ret (Load_stat c d opts w) = Some (ShapeError m)
                      \<and> (d = Nil_dest \<longrightarrow> strings_Contains m ''expected a pointer''))
                 \<and> final_dest (Load_stat c d opts w) = d
                 \<and> calls_made w (Load_stat c d opts w)
                     = (if SkipEnvFile \<in> set opts \<or> files w ''.env'' = None then []
                        else [Call_godotenv_Load])
                       @ [Call_env_ParseWithOptions ?p])"
    if h: "((SkipEnvFile \<in> set opts \<or> files w ''.env'' = None) \<and> denv = environ w) \<or>
           (SkipEnvFile \<notin> set opts \<and> files w ''.env'' \<noteq> None \<and>
            godotenv_Load c (files w) (environ w) = Inr denv)"
    using G2[OF h] B[OF h] by blast
  show ?thesis
    apply (intro conjI)
    subgoal using P1 by blast
    subgoal using P2 by blast
    subgoal using C by blast
    subgoal using D by blast
    done
qed

theorem shape_error_from_decoder_witness:
  "(\<exists>m. ret (Load libraries Nil_dest [SkipEnvFile] empty_world) = Some (ShapeError m)
        \<and> strings_Contains m ''expected a pointer'')
   \<and> (\<exists>m. ret (Load libraries (StructVal TestConfig_zero) [SkipEnvFile] empty_world)
             = Some (ShapeError m))
   \<and> calls_made empty_world (Load libraries Nil_dest [SkipEnvFile] empty_world)
       = [Call_env_ParseWithOptions []]
   \<and> final_dest (Load libraries (StructVal TestConfig_zero) [SkipEnvFile] empty_world)
       = StructVal TestConfig_zero
   \<and> ret (Load (libraries\<lparr>env_ParseWithOptions :=
                    (\<lambda>d p env. (Some (ShapeError ''env: expected a pointer to a Struct''), d))\<rparr>)
             (PlainVal (VInt 0)) [SkipEnvFile] empty_world)
       = Some (ShapeError ''env: expected a pointer to a Struct'')"
proof -
  let ?c2 = "libraries\<lparr>env_ParseWithOptions :=
                    (\<lambda>d p env. (Some (ShapeError ''env: expected a pointer to a Struct''), d))\<rparr>"
  have spec1: "env_ParseWithOptions libraries = spec_env_ParseWithOptions
               \<and> (\<forall>s. Nil_dest \<noteq> PtrStruct s)"
    by (simp add: libraries_def)
  have spec2: "env_ParseWithOptions libraries = spec_env_ParseWithOptions
               \<and> (\<forall>s. StructVal TestConfig_zero \<noteq> PtrStruct s)"
    by (simp add: libraries_def)
  have fstep: "(SkipEnvFile \<in> set [SkipEnvFile] \<and> Map.empty = environ empty_world) \<or>
           (SkipEnvFile \<notin> set [SkipEnvFile]
            \<and> godotenv_Load libraries (files empty_world) (environ empty_world) = Inr Map.empty)"
    by (simp add: empty_world_def)
  have fstep2: "(SkipEnvFile \<in> set [SkipEnvFile] \<and> Map.empty = environ empty_world) \<or>
           (SkipEnvFile \<notin> set [SkipEnvFile]
            \<and> godotenv_Load ?c2 (files empty_world) (environ empty_world) = Inr Map.empty)"
    by (simp add: empty_world_def)
  have dec2: "env_ParseWithOptions ?c2 (PlainVal (VInt 0))
                (prefix (apply_opts zero_configOptions [SkipEnvFile])) Map.empty
              = (Some (ShapeError ''env: expected a pointer to a Struct''), PlainVal (VInt 0))"
    by simp
  note t1 = shape_error_from_decoder[where c = libraries and d = Nil_dest
               and opts = "[SkipEnvFile]" and w = empty_world and denv = Map.empty,
               THEN conjunct1, THEN mp, OF fstep, THEN conjunct2, THEN mp, OF spec1]
  note t2 = shape_error_from_decoder[where c = libraries and d = "StructVal TestConfig_zero"
               and opts = "[SkipEnvFile]" and w = empty_world and denv = Map.empty,
               THEN conjunct1, THEN mp, OF fstep, THEN conjunct2, THEN mp, OF spec2]
  note t3 = shape_error_from_decoder[where c = ?c2 and d = "PlainVal (VInt 0)"
               and opts = "[SkipEnvFile]" and w = empty_world and denv = Map.empty,
               THEN conjunct1, THEN mp, OF fstep2, THEN conjunct1, THEN spec, THEN spec,
               THEN mp, OF dec2]
  from t1 have a: "(\<exists>m. ret (Load libraries Nil_dest [SkipEnvFile] empty_world) = Some (ShapeError m)
        \<and> strings_Contains m ''expected a pointer'')"
    by simp
  from t1 have c: "calls_made empty_world (Load libraries Nil_dest [SkipEnvFile] empty_world)
       = [Call_env_ParseWithOptions []]"
    by (simp add: zero_configOptions_def)
  from t2 have b: "(\<exists>m. ret (Load libraries (StructVal TestConfig_zero) [SkipEnvFile] empty_world)
             = Some (ShapeError m))"
    by blast
  from t2 have d: "final_dest (Load libraries (StructVal TestConfig_zero) [SkipEnvFile] empty_world)
       = StructVal TestConfig_zero"
    by blast
  from t3 have e: "ret (Load ?c2 (PlainVal (VInt 0)) [SkipEnvFile] empty_world)
       = Some (ShapeError ''env: expected a pointer to a Struct'')"
    by blast
  from a b c d e show ?thesis by blast
qed

text \<open>
  C8, as stated, fails: \<^verbatim>\<open>defaults.SetDefaults(dest)\<close> is called as a statement and
  returns nothing, so the default injector cannot make \<open>Load\<close> return an error. For
  an integer field with the default literal \<^verbatim>\<open>abc\<close>, which cannot be applied, \<open>Load\<close>
  runs the validator next and returns nil, the field still at zero.
\<close>

theorem default_error_surfaces_counterexample:
  "parse_as (VInt 0) ''abc'' = None
   \<and> ret (Load libraries
            (PtrStruct [(\<lparr>fd_name = ''Port'', fd_env = ''PORT'', fd_default = Some ''abc'',
                          fd_required = False\<rparr>, VInt 0)])
            [SkipEnvFile] empty_world) = None
   \<and> calls_made empty_world
        (Load libraries
            (PtrStruct [(\<lparr>fd_name = ''Port'', fd_env = ''PORT'', fd_default = Some ''abc'',
                          fd_required = False\<rparr>, VInt 0)])
            [SkipEnvFile] empty_world)
       = [Call_env_ParseWithOptions [], Call_defaults_SetDefaults, Call_validate_Struct]
   \<and> final_dest (Load libraries
            (PtrStruct [(\<lparr>fd_name = ''Port'', fd_env = ''PORT'', fd_default = Some ''abc'',
                          fd_required = False\<rparr>, VInt 0)])
            [SkipEnvFile] empty_world)
       = PtrStruct [(\<lparr>fd_name = ''Port'', fd_env = ''PORT'', fd_default = Some ''abc'',
                          fd_required = False\<rparr>, VInt 0)]"
  by (simp add: run_defs)

lemma Load_error_source:
  assumes "ret (Load c d opts w) = Some e"
  shows "(SkipEnvFile \<notin> set opts \<and> godotenv_Load c (files w) (environ w) = Inl e)
       \<or> (\<exists>denv d1.
            ((SkipEnvFile \<in> set opts \<and> denv = environ w) \<or>
             (SkipEnvFile \<notin> set opts \<and> godotenv_Load c (files w) (environ w) = Inr denv))
            \<and> (env_ParseWithOptions c d (prefix (apply_opts zero_configOptions opts)) denv
                  = (Some e, d1)
               \<or> (env_ParseWithOptions c d (prefix (apply_opts zero_configOptions opts)) denv
                     = (None, d1)
                  \<and> SkipValidation \<notin> set opts
                  \<and> validate_Struct c (defaults_SetDefaults c d1) = Some e)))"
proof (cases "SkipEnvFile \<notin> set opts \<and> (\<exists>e'. godotenv_Load c (files w) (environ w) = Inl e')")
  case True
  then obtain e' where e': "godotenv_Load c (files w) (environ w) = Inl e'" by blast
  with True assms have "e' = e" by (simp add: Load_file_error)
  with True e' show ?thesis by simp
next
  case False
  then obtain denv where h: "(SkipEnvFile \<in> set opts \<and> denv = environ w) \<or>
           (SkipEnvFile \<notin> set opts \<and> godotenv_Load c (files w) (environ w) = Inr denv)"
    by (cases "godotenv_Load c (files w) (environ w)") auto
  obtain x d1 where xd: "env_ParseWithOptions c d (prefix (apply_opts zero_configOptions opts)) denv
                          = (x, d1)"
    by (cases "env_ParseWithOptions c d (prefix (apply_opts zero_configOptions opts)) denv")
  from Load_ret_after_file_step[OF h, of d] assms xd
  have "x = Some e \<or> (x = None \<and> SkipValidation \<notin> set opts
                       \<and> validate_Struct c (defaults_SetDefaults c d1) = Some e)"
    by (auto split: option.splits if_splits)
  with h xd show ?thesis by blast
qed

lemma Load_stat_error_source:
  assumes "ret (Load_stat c d opts w) = Some e"
  shows "(SkipEnvFile \<notin> set opts \<and> files w ''.env'' \<noteq> None
          \<and> godotenv_Load c (files w) (environ w) = Inl e)
       \<or> (\<exists>denv d1.
            (((SkipEnvFile \<in> set opts \<or> files w ''.env'' = None) \<and> denv = environ w) \<or>
             (SkipEnvFile \<notin> set opts \<and> files w ''.env'' \<noteq> None \<and>
              godotenv_Load c (files w) (environ w) = Inr denv))
            \<and> (env_ParseWithOptions c d (prefix (apply_opts zero_configOptions opts)) denv
                  = (Some e, d1)
               \<or> (env_ParseWithOptions c d (prefix (apply_opts zero_configOptions opts)) denv
                     = (None, d1)
                  \<and> SkipValidation \<notin> set opts
                  \<and> validate_Struct c (defaults_SetDefaults c d1) = Some e)))"
proof (cases "SkipEnvFile \<notin> set opts \<and> files w ''.env'' \<noteq> None
              \<and> (\<exists>e'. godotenv_Load c (files w) (environ w) = Inl e')")
  case True
  then obtain e' content where e': "godotenv_Load c (files w) (environ w) = Inl e'"
    and content: "files w ''.env'' = Some content" by blast
  with True assms have "e' = e" by (simp add: Load_stat_file_error)
  with True e' show ?thesis by simp
next
  case False
  then obtain denv where h: "((SkipEnvFile \<in> set opts \<or> files w ''.env'' = None) \<and> denv = environ w) \<or>
           (SkipEnvFile \<notin> set opts \<and> files w ''.env'' \<noteq> None \<and>
            godotenv_Load c (files w) (environ w) = Inr denv)"
    by (cases "godotenv_Load c (files w) (environ w)") auto
  obtain x d1 where xd: "env_ParseWithOptions c d (prefix (apply_opts zero_configOptions opts)) denv
                          = (x, d1)"
    by (cases "env_ParseWithOptions c d (prefix (apply_opts zero_configOptions opts)) denv")
  from Load_stat_ret_after_file_step[OF h, of d] assms xd
  have "x = Some e \<or> (x = None \<and> SkipValidation \<notin> set opts
                       \<and> validate_Struct c (defaults_SetDefaults c d1) = Some e)"
    by (auto split: option.splits if_splits)
  with h xd show ?thesis by blast
qed

lemma spec_godotenv_Load_error:
  "spec_godotenv_Load fs env = Inl e \<Longrightarrow> \<exists>m. e = FileLoadError m"
  by (auto simp: spec_godotenv_Load_def split: option.splits)

lemma spec_env_ParseWithOptions_error:
  "spec_env_ParseWithOptions d p env = (Some e, d1) \<Longrightarrow> (\<exists>m. e = ShapeError m \<or> e = DecodeError m)"
  by (cases d) (auto simp: Let_def split: if_splits)

lemma spec_validate_Struct_error:
  "spec_validate_Struct d = Some e \<Longrightarrow> \<exists>m. e = ValidationError m"
  by (cases d) (auto simp: validate_fields_def split: if_splits)

text \<open>
  C8, amended. The default-injection step has no error path. Whatever the four libraries
  are, once the file step is skipped or has succeeded and the decoder has returned no
  error, both versions of \<open>Load\<close> call the default injector and go on: the destination is
  the one the injector returns, the validator is called next unless validation is
  skipped, and \<open>Load\<close> returns the validator's answer for the injected destination (nil
  when validation is skipped). Every error \<open>Load\<close> returns is the file loader's, the
  decoder's for the destination given, or the validator's for the injected destination.
  With the libraries of the specification \<open>Load\<close> never returns a \<open>DefaultError\<close>.
\<close>

theorem load_errors_never_from_default_injector:
  "(((SkipEnvFile \<in> set opts \<and> denv = environ w) \<or>
     (SkipEnvFile \<notin> set opts \<and> godotenv_Load c (files w) (environ w) = Inr denv))
    \<and> env_ParseWithOptions c d (prefix (apply_opts zero_configOptions opts)) denv = (None, d1)
    \<longrightarrow> final_dest (Load c d opts w) = defaults_SetDefaults c d1
        \<and> ret (Load c d opts w) =
            (if SkipValidation \<in> set opts then None
             else validate_Struct c (defaults_SetDefaults c d1))
        \<and> calls_made w (Load c d opts w) =
            (if SkipEnvFile \<in> set opts then [] else [Call_godotenv_Load]) @
            [Call_env_ParseWithOptions (prefix (apply_opts zero_configOptions opts)),
             Call_defaults_SetDefaults] @
            (if SkipValidation \<in> set opts then [] else [Call_validate_Struct]))
   \<and> ((((SkipEnvFile \<in> set opts \<or> files w ''.env'' = None) \<and> denv = environ w) \<or>
        (SkipEnvFile \<notin> set opts \<and> files w ''.env'' \<noteq> None \<and>
         godotenv_Load c (files w) (environ w) = Inr denv))
    \<and> env_ParseWithOptions c d (prefix (apply_opts zero_configOptions opts)) denv = (None, d1)
    \<longrightarrow> final_dest (Load_stat c d opts w) = defaults_SetDefaults c d1
        \<and> ret (Load_stat c d opts w) =
            (if SkipValidation \<in> set opts then None
             else validate_Struct c (defaults_SetDefaults c d1))
        \<and> calls_made w (Load_stat c d opts w) =
            (if SkipEnvFile \<in> set opts \<or> files w ''.env'' = None then []
             else [Call_godotenv_Load]) @
            [Call_env_ParseWithOptions (prefix (apply_opts zero_configOptions opts)),
             Call_defaults_SetDefaults] @
            (if SkipValidation \<in> set opts then [] else [Call_validate_Struct]))
   \<and> (ret (Load c d opts w) = Some e
        \<longrightarrow> (SkipEnvFile \<notin> set opts \<and> godotenv_Load c (files w) (environ w) = Inl e)
          \<or> (\<exists>denv d1.
               ((SkipEnvFile \<in> set opts \<and> denv = environ w) \<or>
                (SkipEnvFile \<notin> set opts \<and> godotenv_Load c (files w) (environ w) = Inr denv))
               \<and> (env_ParseWithOptions c d (prefix (apply_opts zero_configOptions opts)) denv
                     = (Some e, d1)
                  \<or> (env_ParseWithOptions c d (prefix (apply_opts zero_configOptions opts)) denv
                        = (None, d1)
                     \<and> SkipValidation \<notin> set opts
                     \<and> validate_Struct c (defaults_SetDefaults c d1) = Some e))))
   \<and> (ret (Load_stat c d opts w) = Some e
        \<longrightarrow> (SkipEnvFile \<notin> set opts \<and> files w ''.env'' \<noteq> None
              \<and> godotenv_Load c (files w) (environ w) = Inl e)
          \<or> (\<exists>denv d1.
               (((SkipEnvFile \<in> set opts \<or> files w ''.env'' = None) \<and> denv = environ w) \<or>
                (SkipEnvFile \<notin> set opts \<and> files w ''.env'' \<noteq> None \<and>
                 godotenv_Load c (files w) (environ w) = Inr denv))
               \<and> (env_ParseWithOptions c d (prefix (apply_opts zero_configOptions opts)) denv
                     = (Some e, d1)
                  \<or> (env_ParseWithOptions c d (prefix (apply_opts zero_configOptions opts)) denv
                        = (None, d1)
                     \<and> SkipValidation \<notin> set opts
                     \<and> validate_Struct c (defaults_SetDefaults c d1) = Some e))))
   \<and> ret (Load libraries d opts w) \<noteq> Some (DefaultError m)
   \<and> ret (Load_stat libraries d opts w) \<noteq> Some (DefaultError m)"
proof -
  let ?p = "prefix (apply_opts zero_configOptions opts)"
  have A: "final_dest (Load c d opts w) = defaults_SetDefaults c d1
        \<and> ret (Load c d opts w) =
            (if SkipValidation \<in> set opts then None
             else validate_Struct c (defaults_SetDefaults c d1))
        \<and> calls_made w (Load c d opts w) =
            (if SkipEnvFile \<in> set opts then [] else [Call_godotenv_Load]) @
            [Call_env_ParseWithOptions ?p, Call_defaults_SetDefaults] @
            (if SkipValidation \<in> set opts then [] else [Call_validate_Struct])"
    if fs: "(SkipEnvFile \<in> set opts \<and> denv = environ w) \<or>
            (SkipEnvFile \<notin> set opts \<and> godotenv_Load c (files w) (environ w) = Inr denv)"
      and dec: "env_ParseWithOptions c d ?p denv = (None, d1)"
    using Load_ret_after_file_step[OF fs, of d] Load_dest_after_file_step[OF fs, of d]
          Load_calls_after_file_step[OF fs, of d] dec
    by simp
  have B: "final_dest (Load_stat c d opts w) = defaults_SetDefaults c d1
        \<and> ret (Load_stat c d opts w) =
            (if SkipValidation \<in> set opts then None
             else validate_Struct c (defaults_SetDefaults c d1))
        \<and> calls_made w (Load_stat c d opts w) =
            (if SkipEnvFile \<in> set opts \<or> files w ''.env'' = None then []
             else [Call_godotenv_Load]) @
            [Call_env_ParseWithOptions ?p, Call_defaults_SetDefaults] @
            (if SkipValidation \<in> set opts then [] else [Call_validate_Struct])"
    if fs: "((SkipEnvFile \<in> set opts \<or> files w ''.env'' = None) \<and> denv = environ w) \<or>
            (SkipEnvFile \<notin> set opts \<and> files w ''.env'' \<noteq> None \<and>
             godotenv_Load c (files w) (environ w) = Inr denv)"
      and dec: "env_ParseWithOptions c d ?p denv = (None, d1)"
    using Load_stat_ret_after_file_step[OF fs, of d] Load_stat_dest_after_file_step[OF fs, of d]
          Load_stat_calls_after_file_step[OF fs, of d] dec
    by simp
  have E: "ret (Load libraries d opts w) \<noteq> Some (DefaultError m)"
  proof
    assume "ret (Load libraries d opts w) = Some (DefaultError m)"
    from Load_error_source[OF this] show False
      using spec_godotenv_Load_error spec_env_ParseWithOptions_error spec_validate_Struct_error
      by (fastforce simp: libraries_def)
  qed
  have F: "ret (Load_stat libraries d opts w) \<noteq> Some (DefaultError m)"
  proof
    assume "ret (Load_stat libraries d opts w) = Some (DefaultError m)"
    from Load_stat_error_source[OF this] show False
      using spec_godotenv_Load_error spec_env_ParseWithOptions_error spec_validate_Struct_error
      by (fastforce simp: libraries_def)
  qed
  show ?thesis
    apply (intro conjI)
    subgoal using A by blast
    subgoal using B by blast
    subgoal using Load_error_source[of c d opts w e] by blast
    subgoal using Load_stat_error_source[of c d opts w e] by blast
    subgoal by (rule E)
    subgoal by (rule F)
    done
qed

theorem load_errors_never_from_default_injector_witness:
  "final_dest (Load libraries
            (PtrStruct [(\<lparr>fd_name = ''Port'', fd_env = ''PORT'', fd_default = Some ''abc'',
                          fd_required = False\<rparr>, VInt 0)])
            [SkipEnvFile] empty_world)
     = defaults_SetDefaults libraries
         (PtrStruct [(\<lparr>fd_name = ''Port'', fd_env = ''PORT'', fd_default = Some ''abc'',
                        fd_required = False\<rparr>, VInt 0)])
   \<and> ret (Load libraries
            (PtrStruct [(\<lparr>fd_name = ''Port'', fd_env = ''PORT'', fd_default = Some ''abc'',
                          fd_required = False\<rparr>, VInt 0)])
            [SkipEnvFile] empty_world)
     = validate_Struct libraries
         (defaults_SetDefaults libraries
            (PtrStruct [(\<lparr>fd_name = ''Port'', fd_env = ''PORT'', fd_default = Some ''abc'',
                           fd_required = False\<rparr>, VInt 0)]))
   \<and> calls_made empty_world
        (Load libraries
            (PtrStruct [(\<lparr>fd_name = ''Port'', fd_env = ''PORT'', fd_default = Some ''abc'',
                          fd_required = False\<rparr>, VInt 0)])
            [SkipEnvFile] empty_world)
     = [Call_env_ParseWithOptions [], Call_defaults_SetDefaults, Call_validate_Struct]
   \<and> (\<exists>m. ret (Load libraries (PtrStruct TestConfig_zero) [SkipEnvFile] empty_world)
             = Some (ValidationError m)
          \<and> validate_Struct libraries
              (defaults_SetDefaults libraries (PtrStruct TestConfig_zero))
             = Some (ValidationError m))"
proof -
  let ?d = "PtrStruct [(\<lparr>fd_name = ''Port'', fd_env = ''PORT'', fd_default = Some ''abc'',
                          fd_required = False\<rparr>, VInt 0)]"
  have fstep: "(SkipEnvFile \<in> set [SkipEnvFile] \<and> Map.empty = environ empty_world) \<or>
     (SkipEnvFile \<notin> set [SkipEnvFile]
      \<and> godotenv_Load libraries (files empty_world) (environ empty_world) = Inr Map.empty)"
    by (simp add: empty_world_def)
  have dec1: "env_ParseWithOptions libraries ?d
                (prefix (apply_opts zero_configOptions [SkipEnvFile])) Map.empty = (None, ?d)"
    by (simp add: run_defs)
  have dec2: "env_ParseWithOptions libraries (PtrStruct TestConfig_zero)
                (prefix (apply_opts zero_configOptions [SkipEnvFile])) Map.empty
              = (None, PtrStruct TestConfig_zero)"
    by (simp add: run_defs)
  note t1 = load_errors_never_from_default_injector
              [where c = libraries and d = ?d and opts = "[SkipEnvFile]" and w = empty_world
                 and denv = Map.empty and ?d1.0 = ?d]
  note t2 = load_errors_never_from_default_injector
              [where c = libraries and d = "PtrStruct TestConfig_zero" and opts = "[SkipEnvFile]"
                 and w = empty_world and denv = Map.empty and ?d1.0 = "PtrStruct TestConfig_zero"]
  note a0 = t1[THEN conjunct1, THEN mp, OF conjI[OF fstep dec1]]
  note b0 = t2[THEN conjunct1, THEN mp, OF conjI[OF fstep dec2]]
  from a0 have a:
    "final_dest (Load libraries ?d [SkipEnvFile] empty_world) = defaults_SetDefaults libraries ?d"
    "ret (Load libraries ?d [SkipEnvFile] empty_world)
       = validate_Struct libraries (defaults_SetDefaults libraries ?d)"
    "calls_made empty_world (Load libraries ?d [SkipEnvFile] empty_world)
       = [Call_env_ParseWithOptions [], Call_defaults_SetDefaults, Call_validate_Struct]"
    by (simp_all add: zero_configOptions_def)
  from b0 have b:
    "ret (Load libraries (PtrStruct TestConfig_zero) [SkipEnvFile] empty_world)
       = validate_Struct libraries (defaults_SetDefaults libraries (PtrStruct TestConfig_zero))"
    by simp
  obtain m where m: "validate_Struct libraries
         (defaults_SetDefaults libraries (PtrStruct TestConfig_zero)) = Some (ValidationError m)"
    by (simp add: run_defs)
  from a b m show ?thesis by auto
qed

section \<open>The pretty handler: what the fields map holds\<close>

lemma store_attr_other_key:
  "k \<noteq> fst a \<Longrightarrow> store_attr lib flds a k = flds k"
  by (cases "snd a") (auto simp: store_attr_def)

lemma store_attr_same_key:
  "store_attr lib flds a (fst a) =
     Some (if fst a = ''error''
           then AnyString (case snd a of AnyError m \<Rightarrow> m | AnyString v \<Rightarrow> v
                           | v \<Rightarrow> fmt_Sprint lib v)
           else snd a)"
  by (cases "snd a") (simp_all add: store_attr_def)

lemma foldl_store_attr_untouched:
  "k \<notin> fst ` set ys \<Longrightarrow> foldl (store_attr lib) flds ys k = flds k"
  by (induction ys arbitrary: flds) (auto simp: store_attr_other_key)

lemma foldl_store_attr_last:
  assumes "k \<notin> fst ` set ys"
  shows "foldl (store_attr lib) flds (xs @ (k, v) # ys) k =
     Some (if k = ''error''
           then AnyString (case v of AnyError m \<Rightarrow> m | AnyString s \<Rightarrow> s | u \<Rightarrow> fmt_Sprint lib u)
           else v)"
  using assms store_attr_same_key[of lib "foldl (store_attr lib) flds xs" "(k, v)"]
  by (simp add: foldl_store_attr_untouched)

lemma dom_store_attr: "dom (store_attr lib flds a) = insert (fst a) (dom flds)"
  by (cases "snd a") (auto simp: store_attr_def)

lemma dom_foldl_store_attr: "dom (foldl (store_attr lib) flds as) = dom flds \<union> fst ` set as"
  by (induction as arbitrary: flds) (auto simp: dom_store_attr)

text \<open>
  C10. For every record, the fields map has exactly the attributes' keys (it is empty
  for a record without attributes), and \<open>Handle\<close> returns nil exactly when
  \<^verbatim>\<open>json.MarshalIndent\<close> accepts the map: it then prints one line, whose last operand is
  the marshalled map, and otherwise returns the marshalling error and prints nothing.
  When the attributes are \<open>xs @ (k, v) # ys\<close> with no later attribute of key \<open>k\<close>: for
  \<open>k\<close> = \<^verbatim>\<open>error\<close> the map holds a string under \<open>k\<close>, namely the error's message when \<open>v\<close>
  is an error, \<open>v\<close> itself when it is a string, and \<^verbatim>\<open>fmt.Sprint(v)\<close> otherwise; for any
  other key it holds \<open>v\<close> itself.
\<close>

theorem handle_error_attribute_as_string:
  "(rec_attrs r = xs @ (k, v) # ys \<and> k \<notin> fst ` set ys
      \<longrightarrow> (k = ''error'' \<longrightarrow>
             Handle_fields lib r k =
               Some (AnyString (case v of AnyError m \<Rightarrow> m | AnyString s \<Rightarrow> s
                                | u \<Rightarrow> fmt_Sprint lib u)))
          \<and> (k \<noteq> ''error'' \<longrightarrow> Handle_fields lib r k = Some v))
   \<and> dom (Handle_fields lib r) = fst ` set (rec_attrs r)
   \<and> (rec_attrs r = [] \<longrightarrow> Handle_fields lib r = Map.empty)
   \<and> (fst (Handle lib r printed) = None
        \<longleftrightarrow> (\<exists>b. json_MarshalIndent lib (Handle_fields lib r) = Inr b))
   \<and> (\<forall>err. json_MarshalIndent lib (Handle_fields lib r) = Inl err
        \<longrightarrow> Handle lib r printed = (Some err, printed))
   \<and> (\<forall>b. json_MarshalIndent lib (Handle_fields lib r) = Inr b
        \<longrightarrow> fst (Handle lib r printed) = None
            \<and> length (snd (Handle lib r printed)) = Suc (length printed)
            \<and> butlast (snd (Handle lib r printed)) = printed
            \<and> last (last (snd (Handle lib r printed))) = [(Some White, b)])"
proof -
  have a: "Handle_fields lib r k =
     Some (if k = ''error''
           then AnyString (case v of AnyError m \<Rightarrow> m | AnyString s \<Rightarrow> s | u \<Rightarrow> fmt_Sprint lib u)
           else v)"
    if h: "rec_attrs r = xs @ (k, v) # ys \<and> k \<notin> fst ` set ys"
  proof -
    from h have "k \<notin> fst ` set ys" by simp
    then have "foldl (store_attr lib) Map.empty (xs @ (k, v) # ys) k =
     Some (if k = ''error''
           then AnyString (case v of AnyError m \<Rightarrow> m | AnyString s \<Rightarrow> s | u \<Rightarrow> fmt_Sprint lib u)
           else v)"
      by (rule foldl_store_attr_last)
    with h show ?thesis by (simp add: Handle_fields_def)
  qed
  have b: "dom (Handle_fields lib r) = fst ` set (rec_attrs r)"
    by (simp add: Handle_fields_def dom_foldl_store_attr)
  have b0: "rec_attrs r = [] \<longrightarrow> Handle_fields lib r = Map.empty"
    by (simp add: Handle_fields_def)
  have c: "fst (Handle lib r printed) = None
          \<longleftrightarrow> (\<exists>b. json_MarshalIndent lib (Handle_fields lib r) = Inr b)"
    by (cases "json_MarshalIndent lib (Handle_fields lib r)") (simp_all add: Handle_def Let_def)
  have d: "\<forall>err. json_MarshalIndent lib (Handle_fields lib r) = Inl err
          \<longrightarrow> Handle lib r printed = (Some err, printed)"
    by (simp add: Handle_def Let_def)
  have e: "\<forall>b. json_MarshalIndent lib (Handle_fields lib r) = Inr b
          \<longrightarrow> fst (Handle lib r printed) = None
              \<and> length (snd (Handle lib r printed)) = Suc (length printed)
              \<and> butlast (snd (Handle lib r printed)) = printed
              \<and> last (last (snd (Handle lib r printed))) = [(Some White, b)]"
    by (simp add: Handle_def Let_def)
  show ?thesis
    apply (intro conjI)
    subgoal using a by auto
    subgoal by (rule b)
    subgoal by (rule b0)
    subgoal by (rule c)
    subgoal by (rule d)
    subgoal by (rule e)
    done
qed

theorem handle_error_attribute_as_string_witness:
  "Handle_fields
     \<lparr>Level_String = (\<lambda>l. ''ERROR''), fmt_Sprint = (\<lambda>v. ''42''),
      json_MarshalIndent = (\<lambda>m. Inr ''{}''), Time_Format = (\<lambda>t. ''[00:00:00.000]''),
      frame_File = (\<lambda>pc. ''main.go''), frame_Line = (\<lambda>pc. ''1'')\<rparr>
     \<lparr>rec_Time = 0, rec_Message = ''failed'', rec_Level = LevelError, rec_PC = 0,
      rec_attrs = [(''user'', AnyInt 7), (''error'', AnyError ''boom'')]\<rparr> ''error''
     = Some (AnyString ''boom'')
   \<and> Handle_fields
     \<lparr>Level_String = (\<lambda>l. ''ERROR''), fmt_Sprint = (\<lambda>v. ''42''),
      json_MarshalIndent = (\<lambda>m. Inr ''{}''), Time_Format = (\<lambda>t. ''[00:00:00.000]''),
      frame_File = (\<lambda>pc. ''main.go''), frame_Line = (\<lambda>pc. ''1'')\<rparr>
     \<lparr>rec_Time = 0, rec_Message = ''failed'', rec_Level = LevelError, rec_PC = 0,
      rec_attrs = [(''error'', AnyInt 42), (''user'', AnyInt 7)]\<rparr> ''error''
     = Some (AnyString ''42'')
   \<and> fst (Handle
     \<lparr>Level_String = (\<lambda>l. ''ERROR''), fmt_Sprint = (\<lambda>v. ''42''),
      json_MarshalIndent = (\<lambda>m. Inr ''{}''), Time_Format = (\<lambda>t. ''[00:00:00.000]''),
      frame_File = (\<lambda>pc. ''main.go''), frame_Line = (\<lambda>pc. ''1'')\<rparr>
     \<lparr>rec_Time = 0, rec_Message = ''failed'', rec_Level = LevelError, rec_PC = 0,
      rec_attrs = [(''user'', AnyInt 7), (''error'', AnyError ''boom'')]\<rparr> []) = None
   \<and> Handle
     \<lparr>Level_String = (\<lambda>l. ''INFO''), fmt_Sprint = (\<lambda>v. ''42''),
      json_MarshalIndent = (\<lambda>m. Inr ''{}''), Time_Format = (\<lambda>t. ''[00:00:00.000]''),
      frame_File = (\<lambda>pc. ''main.go''), frame_Line = (\<lambda>pc. ''1'')\<rparr>
     \<lparr>rec_Time = 0, rec_Message = ''started'', rec_Level = LevelInfo, rec_PC = 0,
      rec_attrs = []\<rparr> []
     = (None, (((None, ''[00:00:00.000]'') # []) # [(Some Blue, ''INFO:'')] # [(Some Cyan, ''started'')]
                 # [] # [(Some White, ''{}'')] # []) # [])
   \<and> Handle
     \<lparr>Level_String = (\<lambda>l. ''INFO''), fmt_Sprint = (\<lambda>v. ''42''),
      json_MarshalIndent = (\<lambda>m. Inl ''json: unsupported type''),
      Time_Format = (\<lambda>t. ''[00:00:00.000]''),
      frame_File = (\<lambda>pc. ''main.go''), frame_Line = (\<lambda>pc. ''1'')\<rparr>
     \<lparr>rec_Time = 0, rec_Message = ''started'', rec_Level = LevelInfo, rec_PC = 0,
      rec_attrs = [(''ch'', AnyOther 0)]\<rparr> []
     = (Some ''json: unsupported type'', [])"
  using handle_error_attribute_as_string
          [where r = "\<lparr>rec_Time = 0, rec_Message = ''failed'', rec_Level = LevelError, rec_PC = 0,
                        rec_attrs = [(''user'', AnyInt 7), (''error'', AnyError ''boom'')]\<rparr>"
             and xs = "[(''user'', AnyInt 7)]" and k = "''error''" and v = "AnyError ''boom''"
             and ys = "[]" and printed = "[]"
             and lib = "\<lparr>Level_String = (\<lambda>l. ''ERROR''), fmt_Sprint = (\<lambda>v. ''42''),
      json_MarshalIndent = (\<lambda>m. Inr ''{}''), Time_Format = (\<lambda>t. ''[00:00:00.000]''),
      frame_File = (\<lambda>pc. ''main.go''), frame_Line = (\<lambda>pc. ''1'')\<rparr>"]
        handle_error_attribute_as_string
          [where r = "\<lparr>rec_Time = 0, rec_Message = ''failed'', rec_Level = LevelError, rec_PC = 0,
                        rec_attrs = [(''error'', AnyInt 42), (''user'', AnyInt 7)]\<rparr>"
             and xs = "[]" and k = "''error''" and v = "AnyInt 42"
             and ys = "[(''user'', AnyInt 7)]" and printed = "[]"
             and lib = "\<lparr>Level_String = (\<lambda>l. ''ERROR''), fmt_Sprint = (\<lambda>v. ''42''),
      json_MarshalIndent = (\<lambda>m. Inr ''{}''), Time_Format = (\<lambda>t. ''[00:00:00.000]''),
      frame_File = (\<lambda>pc. ''main.go''), frame_Line = (\<lambda>pc. ''1'')\<rparr>"]
        handle_error_attribute_as_string
          [where r = "\<lparr>rec_Time = 0, rec_Message = ''started'', rec_Level = LevelInfo, rec_PC = 0,
                        rec_attrs = []\<rparr>"
             and printed = "[]"
             and lib = "\<lparr>Level_String = (\<lambda>l. ''INFO''), fmt_Sprint = (\<lambda>v. ''42''),
      json_MarshalIndent = (\<lambda>m. Inr ''{}''), Time_Format = (\<lambda>t. ''[00:00:00.000]''),
      frame_File = (\<lambda>pc. ''main.go''), frame_Line = (\<lambda>pc. ''1'')\<rparr>"]
        handle_error_attribute_as_string
          [where r = "\<lparr>rec_Time = 0, rec_Message = ''started'', rec_Level = LevelInfo, rec_PC = 0,
                        rec_attrs = [(''ch'', AnyOther 0)]\<rparr>"
             and xs = "[]" and k = "''ch''" and v = "AnyOther 0" and ys = "[]"
             and printed = "[]"
             and lib = "\<lparr>Level_String = (\<lambda>l. ''INFO''), fmt_Sprint = (\<lambda>v. ''42''),
      json_MarshalIndent = (\<lambda>m. Inl ''json: unsupported type''),
      Time_Format = (\<lambda>t. ''[00:00:00.000]''),
      frame_File = (\<lambda>pc. ''main.go''), frame_Line = (\<lambda>pc. ''1'')\<rparr>"]
  by (simp add: Handle_def Handle_fields_def Let_def LevelInfo_def LevelDebug_def)

end
